theory Spec2Isabelle
  imports Complex_Main
begin

section \<open>Python and numpy values\<close>

text \<open>
  The exceptions the modelled code can raise. A function that can raise returns
  \<open>error + 'a\<close>, with \<open>Inl\<close> for the exception.
\<close>

datatype error =
    ZeroDivisionError | ValueError | IndexError | TypeError | UnboundLocalError | IOError

text \<open>
  Python floats are modelled as reals: rounding is not modelled. \<open>int(x)\<close> on a float
  truncates towards zero.
\<close>

definition py_int :: "real \<Rightarrow> int" where
  "py_int x = (if x < 0 then \<lceil>x\<rceil> else \<lfloor>x\<rfloor>)"

text \<open>\<open>x % y\<close> on floats: the result has the sign of the divisor.\<close>

definition py_fmod :: "real \<Rightarrow> real \<Rightarrow> error + real" where
  "py_fmod x y = (if y = 0 then Inl ZeroDivisionError else Inr (x - y * of_int \<lfloor>x / y\<rfloor>))"

text \<open>
  An index \<open>i\<close> into a sequence of \<open>n\<close> elements: from \<open>-n\<close> up to \<open>-1\<close> it counts from
  the end, outside \<open>-n .. n-1\<close> it raises. \<open>py_nth\<close> is \<open>xs[i]\<close>.
\<close>

definition py_index :: "nat \<Rightarrow> int \<Rightarrow> error + nat" where
  "py_index n i =
     (if i < - int n \<or> int n \<le> i then Inl IndexError
      else Inr (nat (if i < 0 then i + int n else i)))"

definition py_nth :: "'a list \<Rightarrow> int \<Rightarrow> error + 'a" where
  "py_nth xs i = (case py_index (length xs) i of Inl e \<Rightarrow> Inl e | Inr j \<Rightarrow> Inr (xs ! j))"

text \<open>
  \<open>xs[a:b]\<close>: a negative bound counts from the end, both bounds are clipped to the
  list, and a stop at or before the start gives the empty list.
\<close>

definition py_bound :: "int \<Rightarrow> int \<Rightarrow> int" where
  "py_bound n i = (if i < 0 then max (n + i) 0 else min i n)"

definition py_slice :: "int \<Rightarrow> int \<Rightarrow> 'a list \<Rightarrow> 'a list" where
  "py_slice a b xs =
     (let n = int (length xs); a' = py_bound n a; b' = py_bound n b
      in take (nat (b' - a')) (drop (nat a') xs))"

section \<open>views.py: the colour gradient\<close>

type_synonym color = "int \<times> int \<times> int"

text \<open>\<open>lerp(x, x0, x1, y0, y1)\<close>.\<close>

definition lerp :: "real \<Rightarrow> real \<Rightarrow> real \<Rightarrow> real \<Rightarrow> real \<Rightarrow> error + real" where
  "lerp x x0 x1 y0 y1 =
     (if x1 - x0 = 0 then Inl ZeroDivisionError
      else Inr (y0 + (y1 - y0) * ((x - x0) / (x1 - x0))))"

text \<open>
  \<open>rgb_lerp(x, x0, x1, c0, c1)\<close>: each channel is interpolated and floored. The floored
  channel is kept as an integer.
\<close>

definition rgb_lerp :: "real \<Rightarrow> real \<Rightarrow> real \<Rightarrow> color \<Rightarrow> color \<Rightarrow> error + color" where
  "rgb_lerp x x0 x1 c0 c1 =
     (case (c0, c1) of ((r0, g0, b0), (r1, g1, b1)) \<Rightarrow>
        (case lerp x x0 x1 (of_int r0) (of_int r1) of Inl e \<Rightarrow> Inl e | Inr r \<Rightarrow>
        (case lerp x x0 x1 (of_int g0) (of_int g1) of Inl e \<Rightarrow> Inl e | Inr g \<Rightarrow>
        (case lerp x x0 x1 (of_int b0) (of_int b1) of Inl e \<Rightarrow> Inl e | Inr b \<Rightarrow>
           Inr (\<lfloor>r\<rfloor>, \<lfloor>g\<rfloor>, \<lfloor>b\<rfloor>)))))"

text \<open>
  \<open>gradient_func(colors)\<close> computes \<open>grad_width\<close> once and returns the closure \<open>_fun\<close>;
  \<open>gradient_fun\<close> is that closure, and \<open>gradient_func\<close> raises when \<open>grad_width\<close> cannot
  be computed.
\<close>

definition gradient_fun :: "color list \<Rightarrow> real \<Rightarrow> real \<Rightarrow> error + color" where
  "gradient_fun colors grad_width v =
     (if v \<le> 0 then py_nth colors 0
      else if v \<ge> 1 then py_nth colors (- 1)
      else if grad_width = 0 then Inl ZeroDivisionError
      else
        (let pos = py_int (v / grad_width) in
         case py_nth colors pos of Inl e \<Rightarrow> Inl e | Inr c0 \<Rightarrow>
         (case py_nth colors (pos + 1) of Inl e \<Rightarrow> Inl e | Inr c1 \<Rightarrow>
         (case py_fmod v grad_width of Inl e \<Rightarrow> Inl e | Inr r \<Rightarrow>
            rgb_lerp (r / grad_width) 0 1 c0 c1))))"

definition gradient_func :: "color list \<Rightarrow> error + (real \<Rightarrow> error + color)" where
  "gradient_func colors =
     (if real (length colors) - 1 = 0 then Inl ZeroDivisionError
      else Inr (gradient_fun colors (1 / (real (length colors) - 1))))"

text \<open>\<open>freqshow.WATERFALL_GRAD\<close>.\<close>

definition WATERFALL_GRAD :: "color list" where
  "WATERFALL_GRAD = [(0, 0, 255), (0, 255, 255), (255, 255, 0), (255, 0, 0)]"

text \<open>The call \<open>gradient_func(colors)(value)\<close>.\<close>

definition gradient_at :: "color list \<Rightarrow> real \<Rightarrow> error + color" where
  "gradient_at colors v = (case gradient_func colors of Inl e \<Rightarrow> Inl e | Inr f \<Rightarrow> f v)"

section \<open>numpy floats\<close>

text \<open>
  The decibel values are numpy floats. Besides the finite values (reals here) they take
  the three special values that \<open>np.log10\<close> and the arithmetic on its results produce.
\<close>

datatype npfloat = Fin real | PosInf | NegInf | NaN

fun fl_lt :: "npfloat \<Rightarrow> npfloat \<Rightarrow> bool" where
  "fl_lt NaN _ = False"
| "fl_lt _ NaN = False"
| "fl_lt (Fin a) (Fin b) = (a < b)"
| "fl_lt NegInf NegInf = False"
| "fl_lt NegInf _ = True"
| "fl_lt _ NegInf = False"
| "fl_lt PosInf _ = False"
| "fl_lt _ PosInf = True"

fun fl_add :: "npfloat \<Rightarrow> npfloat \<Rightarrow> npfloat" where
  "fl_add NaN _ = NaN"
| "fl_add _ NaN = NaN"
| "fl_add (Fin a) (Fin b) = Fin (a + b)"
| "fl_add PosInf NegInf = NaN"
| "fl_add NegInf PosInf = NaN"
| "fl_add PosInf _ = PosInf"
| "fl_add _ PosInf = PosInf"
| "fl_add NegInf _ = NegInf"
| "fl_add _ NegInf = NegInf"

fun fl_neg :: "npfloat \<Rightarrow> npfloat" where
  "fl_neg (Fin a) = Fin (- a)"
| "fl_neg PosInf = NegInf"
| "fl_neg NegInf = PosInf"
| "fl_neg NaN = NaN"

definition fl_sub :: "npfloat \<Rightarrow> npfloat \<Rightarrow> npfloat" where
  "fl_sub a b = fl_add a (fl_neg b)"

fun fl_mult :: "npfloat \<Rightarrow> npfloat \<Rightarrow> npfloat" where
  "fl_mult NaN _ = NaN"
| "fl_mult _ NaN = NaN"
| "fl_mult (Fin a) (Fin b) = Fin (a * b)"
| "fl_mult (Fin a) PosInf = (if 0 < a then PosInf else if a < 0 then NegInf else NaN)"
| "fl_mult (Fin a) NegInf = (if 0 < a then NegInf else if a < 0 then PosInf else NaN)"
| "fl_mult PosInf (Fin b) = (if 0 < b then PosInf else if b < 0 then NegInf else NaN)"
| "fl_mult NegInf (Fin b) = (if 0 < b then NegInf else if b < 0 then PosInf else NaN)"
| "fl_mult PosInf PosInf = PosInf"
| "fl_mult PosInf NegInf = NegInf"
| "fl_mult NegInf PosInf = NegInf"
| "fl_mult NegInf NegInf = PosInf"

text \<open>Division of a sum by a positive count, as \<open>np.average\<close> does.\<close>

fun fl_div_count :: "npfloat \<Rightarrow> nat \<Rightarrow> npfloat" where
  "fl_div_count (Fin a) n = Fin (a / real n)"
| "fl_div_count x n = x"

fun is_finite :: "npfloat \<Rightarrow> bool" where
  "is_finite (Fin a) = True"
| "is_finite _ = False"

text \<open>
  \<open>np.log10\<close> on a magnitude: \<open>-inf\<close> at zero and \<open>nan\<close> below it (numpy warns and
  goes on; it does not raise).
\<close>

definition np_log10 :: "real \<Rightarrow> npfloat" where
  "np_log10 x = (if 0 < x then Fin (log 10 x) else if x = 0 then NegInf else NaN)"

text \<open>The builtins \<open>min(a, b)\<close> and \<open>max(a, b)\<close>: the first argument wins unless the
  second is strictly smaller (larger).\<close>

definition py_min :: "npfloat \<Rightarrow> npfloat \<Rightarrow> npfloat" where
  "py_min a b = (if fl_lt b a then b else a)"

definition py_max :: "npfloat \<Rightarrow> npfloat \<Rightarrow> npfloat" where
  "py_max a b = (if fl_lt a b then b else a)"

text \<open>\<open>np.min\<close> and \<open>np.max\<close> of an array: \<open>nan\<close> wins, an empty array raises.\<close>

definition np_minimum :: "npfloat \<Rightarrow> npfloat \<Rightarrow> npfloat" where
  "np_minimum a b = (if a = NaN \<or> b = NaN then NaN else if fl_lt b a then b else a)"

definition np_maximum :: "npfloat \<Rightarrow> npfloat \<Rightarrow> npfloat" where
  "np_maximum a b = (if a = NaN \<or> b = NaN then NaN else if fl_lt a b then b else a)"

definition np_min :: "npfloat list \<Rightarrow> error + npfloat" where
  "np_min xs = (case xs of [] \<Rightarrow> Inl ValueError | x # ys \<Rightarrow> Inr (fold (\<lambda>b a. np_minimum a b) ys x))"

definition np_max :: "npfloat list \<Rightarrow> error + npfloat" where
  "np_max xs = (case xs of [] \<Rightarrow> Inl ValueError | x # ys \<Rightarrow> Inr (fold (\<lambda>b a. np_maximum a b) ys x))"

section \<open>model.py: the state of FreqShowModel\<close>

text \<open>
  The RTL-SDR device is an external library. Only the settings the model reads back are
  kept; a device setter either stores the value or refuses it with \<open>IOError\<close>, which the
  caller passes in as a flag (\<open>ok\<close>).
\<close>

record rtlsdr =
  dev_center_freq :: real
  dev_sample_rate :: real
  dev_gain :: real
  dev_manual_gain :: bool
  dev_freq_correction :: int

text \<open>
  \<open>fft_ave\<close> holds an integer, or the bound method \<open>self.get_fft_ave\<close> that
  \<open>set_fft_ave\<close> stores for an argument of at most 1.
\<close>

datatype ave = Ave int | AveMethod

text \<open>
  The attributes of \<open>FreqShowModel\<close>. \<open>None\<close> in \<open>min_intensity\<close>, \<open>max_intensity\<close> and
  \<open>range\<close> is Python's \<open>None\<close>. \<open>swap_iq\<close> and \<open>peak\<close> are compared with \<open>== True\<close> and
  \<open>== False\<close>: \<open>Some b\<close> is a value equal to \<open>b\<close>, \<open>None\<close> a value equal to neither.
  \<open>sample_rate\<close> is the attribute that only the else branch of \<open>set_sample_rate\<close> assigns.
\<close>

record model =
  width :: int
  height :: int
  min_auto_scale :: bool
  max_auto_scale :: bool
  min_intensity :: "npfloat option"
  max_intensity :: "npfloat option"
  range_intensity :: "npfloat option"
  sdr :: rtlsdr
  freq_correction :: int
  swap_iq :: "bool option"
  sample_rate :: "real option"
  zoom_fac :: real
  lo_offset :: real
  center_freq :: real
  auto_gain :: bool
  fft_ave :: ave
  tune_rate :: real
  sig_strength :: real
  kaiser_beta :: real
  peak :: "bool option"
  filter_name :: string

text \<open>An argument that is the string \<open>'AUTO'\<close> or a number.\<close>

datatype setting = AUTO | Number real

definition clear_intensity :: "model \<Rightarrow> model" where
  "clear_intensity m =
     (let m1 = (if min_auto_scale m then m\<lparr>min_intensity := None\<rparr> else m);
          m2 = (if max_auto_scale m1 then m1\<lparr>max_intensity := None\<rparr> else m1)
      in m2\<lparr>range_intensity := None\<rparr>)"

definition set_swap_iq :: "model \<Rightarrow> bool option \<Rightarrow> model" where
  "set_swap_iq m v = m\<lparr>swap_iq := v\<rparr>"

definition set_peak :: "model \<Rightarrow> bool option \<Rightarrow> model" where
  "set_peak m v = m\<lparr>peak := v\<rparr>"

definition set_freq_correction :: "model \<Rightarrow> int \<Rightarrow> bool \<Rightarrow> error + model" where
  "set_freq_correction m v ok =
     (let m1 = m\<lparr>freq_correction := v\<rparr>
      in if ok then Inr (m1\<lparr>sdr := (sdr m1)\<lparr>dev_freq_correction := v + 1\<rparr>\<rparr>)
         else Inl IOError)"

definition set_lo_offset :: "model \<Rightarrow> real \<Rightarrow> model" where
  "set_lo_offset m v = m\<lparr>lo_offset := v\<rparr>"

definition get_sample_rate :: "model \<Rightarrow> real" where
  "get_sample_rate m = dev_sample_rate (sdr m) / 1000000"

definition set_center_freq :: "model \<Rightarrow> real \<Rightarrow> bool \<Rightarrow> error + model" where
  "set_center_freq m v ok =
     (let m1 = m\<lparr>center_freq := v\<rparr>
      in if zoom_fac m1 = 0 then Inl ZeroDivisionError
         else
           (let freq_hz =
                  (if (get_sample_rate m1 / zoom_fac m1) / 2
                        > (lo_offset m1 / zoom_fac m1) - (zoom_fac m1 / 2)
                   then (center_freq m1 + lo_offset m1) * 1000000
                   else center_freq m1 * 1000000)
            in if ok
               then Inr (clear_intensity (m1\<lparr>sdr := (sdr m1)\<lparr>dev_center_freq := freq_hz\<rparr>\<rparr>))
               else Inl IOError))"

definition set_sample_rate :: "model \<Rightarrow> real \<Rightarrow> bool \<Rightarrow> model" where
  "set_sample_rate m sample_rate_mhz ok =
     (if (225001 / 1000000 \<le> sample_rate_mhz \<and> sample_rate_mhz \<le> 3 / 10)
         \<or> (900001 / 1000000 \<le> sample_rate_mhz \<and> sample_rate_mhz \<le> 32 / 10)
      then (if ok then m\<lparr>sdr := (sdr m)\<lparr>dev_sample_rate := sample_rate_mhz * 1000000\<rparr>\<rparr>
            else m)
      else m\<lparr>sample_rate := Some (get_sample_rate m)\<rparr>)"

definition set_gain :: "model \<Rightarrow> setting \<Rightarrow> bool \<Rightarrow> error + model" where
  "set_gain m gain_db ok =
     (case gain_db of
        AUTO \<Rightarrow>
          (if ok
           then Inr (clear_intensity
                  (m\<lparr>sdr := (sdr m)\<lparr>dev_manual_gain := False\<rparr>, auto_gain := True\<rparr>))
           else Inl IOError)
      | Number g \<Rightarrow>
          (if ok
           then Inr (clear_intensity
                  (m\<lparr>sdr := (sdr m)\<lparr>dev_gain := g, dev_manual_gain := True\<rparr>,
                     auto_gain := False\<rparr>))
           else Inr m))"

definition set_min_intensity :: "model \<Rightarrow> setting \<Rightarrow> model" where
  "set_min_intensity m intensity =
     clear_intensity
       (case intensity of
          AUTO \<Rightarrow> m\<lparr>min_auto_scale := True\<rparr>
        | Number x \<Rightarrow> m\<lparr>min_auto_scale := False, min_intensity := Some (Fin x)\<rparr>)"

definition set_max_intensity :: "model \<Rightarrow> setting \<Rightarrow> model" where
  "set_max_intensity m intensity =
     clear_intensity
       (case intensity of
          AUTO \<Rightarrow> m\<lparr>max_auto_scale := True\<rparr>
        | Number x \<Rightarrow> m\<lparr>max_auto_scale := False, max_intensity := Some (Fin x)\<rparr>)"

definition set_fft_ave :: "model \<Rightarrow> real \<Rightarrow> model" where
  "set_fft_ave m v = (if v > 1 then m\<lparr>fft_ave := Ave (py_int v)\<rparr> else m\<lparr>fft_ave := AveMethod\<rparr>)"

definition set_tune_rate :: "model \<Rightarrow> real \<Rightarrow> model" where
  "set_tune_rate m v = m\<lparr>tune_rate := v\<rparr>"

definition set_zoom_fac :: "model \<Rightarrow> real \<Rightarrow> model" where
  "set_zoom_fac m v = m\<lparr>zoom_fac := v\<rparr>"

definition set_sig_strength :: "model \<Rightarrow> real \<Rightarrow> model" where
  "set_sig_strength m v = m\<lparr>sig_strength := v\<rparr>"

definition set_filter :: "model \<Rightarrow> string \<Rightarrow> model" where
  "set_filter m v = m\<lparr>filter_name := v\<rparr>"

definition set_kaiser_beta :: "model \<Rightarrow> real \<Rightarrow> model" where
  "set_kaiser_beta m v = m\<lparr>kaiser_beta := v\<rparr>"

text \<open>
  \<open>FreqShowModel.__init__\<close>, for a device \<open>dev\<close> that accepts every request. An attribute
  does not exist before its first assignment; the record needs a value there, and none
  of these is read before \<open>__init__\<close> assigns the attribute (\<open>sample_rate\<close> stays
  unassigned).
\<close>

definition FreqShowModel_init :: "int \<Rightarrow> int \<Rightarrow> rtlsdr \<Rightarrow> error + model" where
  "FreqShowModel_init w h dev =
     (let m0 = \<lparr>width = w, height = h, min_auto_scale = True, max_auto_scale = True,
                 min_intensity = None, max_intensity = None, range_intensity = None,
                 sdr = dev, freq_correction = 0, swap_iq = None, sample_rate = None,
                 zoom_fac = 0, lo_offset = 0, center_freq = 0, auto_gain = False,
                 fft_ave = AveMethod, tune_rate = 0, sig_strength = 0, kaiser_beta = 0,
                 peak = None, filter_name = []\<rparr>;
          m1 = set_max_intensity (set_min_intensity m0 (Number (- 10))) (Number 50)
      in case set_freq_correction m1 0 True of Inl e \<Rightarrow> Inl e | Inr m2 \<Rightarrow>
         (let m3 = set_lo_offset
                     (set_zoom_fac
                        (set_sample_rate (set_swap_iq m2 (Some True)) (23 / 100) True)
                        (5 / 100))
                     (3 / 100)
          in case set_center_freq m3 (704515 / 10000) True of Inl e \<Rightarrow> Inl e | Inr m4 \<Rightarrow>
             (case set_gain m4 AUTO True of Inl e \<Rightarrow> Inl e | Inr m5 \<Rightarrow>
                Inr (set_filter
                       (set_peak
                          (set_kaiser_beta
                             (set_sig_strength
                                (set_tune_rate (set_fft_ave m5 3) (1 / 1000)) 0)
                             (86 / 10))
                          (Some True))
                       ''nuttall''))))"

section \<open>model.py: get\_data\<close>

text \<open>\<open>freqshow.SDR_SAMPLE_SIZE\<close>.\<close>

definition SDR_SAMPLE_SIZE :: int where
  "SDR_SAMPLE_SIZE = 8192"

text \<open>
  The window functions of \<open>scipy.signal\<close> are an external library: a call
  \<open>signal.hann(M, False)\<close> returns an array of \<open>M\<close> coefficients, and which ones is left
  to the parameter \<open>tp\<close> (shape, length, index). \<open>signal.boxcar\<close> is all ones.
\<close>

datatype shape =
    Kaiser real | Hann | Hamming | Blackman | Blackmanharris | Bartlett | Barthann | Nuttall

type_synonym taper = "shape \<Rightarrow> nat \<Rightarrow> nat \<Rightarrow> real"

definition signal_window :: "taper \<Rightarrow> shape \<Rightarrow> int \<Rightarrow> real list" where
  "signal_window tp s M = map (tp s (nat M)) [0..<nat M]"

definition signal_boxcar :: "int \<Rightarrow> real list" where
  "signal_boxcar M = replicate (nat M) 1"

text \<open>The value of the variable \<open>window\<close>: an array, or the number 1 of the last branch.\<close>

datatype win = Coeffs "real list" | Scalar real

text \<open>\<open>freqbins * window\<close>, with numpy's broadcasting of an array of one element.\<close>

definition np_multiply :: "complex list \<Rightarrow> win \<Rightarrow> error + complex list" where
  "np_multiply xs w =
     (case w of
        Scalar c \<Rightarrow> Inr (map (\<lambda>z. z * of_real c) xs)
      | Coeffs cs \<Rightarrow>
          (if length cs = length xs then Inr (map2 (\<lambda>z c. z * of_real c) xs cs)
           else if length cs = 1 then Inr (map (\<lambda>z. z * of_real (hd cs)) xs)
           else if length xs = 1 then Inr (map (\<lambda>c. hd xs * of_real c) cs)
           else Inl ValueError))"

text \<open>\<open>scipy.fftpack.fft\<close>: the discrete Fourier transform; no points is an error.\<close>

definition fft :: "complex list \<Rightarrow> error + complex list" where
  "fft xs =
     (if xs = [] then Inl ValueError
      else Inr (map (\<lambda>k. \<Sum>j\<leftarrow>[0..<length xs].
                  xs ! j * cis (- 2 * pi * real j * real k / real (length xs)))
                [0..<length xs]))"

text \<open>\<open>np.fft.fftshift\<close> on one axis of length \<open>n\<close>: the part from \<open>(n + 1) // 2\<close> on
  comes first.\<close>

definition fftshift :: "'a list \<Rightarrow> 'a list" where
  "fftshift xs = drop ((length xs + 1) div 2) xs @ take ((length xs + 1) div 2) xs"

text \<open>\<open>get_freq_step\<close>. It may assign \<open>zoom_fac\<close>, so the model is returned too.\<close>

definition get_freq_step :: "model \<Rightarrow> error + (model \<times> real)" where
  "get_freq_step m =
     (case (if zoom_fac m < dev_sample_rate (sdr m) / 1000000
            then (if zoom_fac m = 0 then Inl ZeroDivisionError
                  else Inr (m, py_int (of_int (width m)
                                * ((dev_sample_rate (sdr m) / 1000000) / zoom_fac m))))
            else Inr (m\<lparr>zoom_fac := get_sample_rate m\<rparr>, width m))
      of Inl e \<Rightarrow> Inl e
       | Inr (m1, zoom) \<Rightarrow>
           (if zoom + 2 = 0 then Inl ZeroDivisionError
            else Inr (m1, dev_sample_rate (sdr m1) / of_int (zoom + 2))))"

text \<open>
  Lines 287 to 298 of \<open>get_data\<close>: the zoom bin count and the samples taken.
  \<open>samples\<close> is what \<open>self.sdr.read_samples(freqshow.SDR_SAMPLE_SIZE)\<close> returned.
\<close>

definition take_samples :: "model \<Rightarrow> complex list \<Rightarrow> error + (model \<times> int \<times> complex list)" where
  "take_samples m samples =
     (case (if zoom_fac m < dev_sample_rate (sdr m) / 1000000
            then (if zoom_fac m = 0 then Inl ZeroDivisionError
                  else Inr (m, py_int (of_int (width m)
                                * ((dev_sample_rate (sdr m) / 1000000) / zoom_fac m))))
            else Inr (m\<lparr>zoom_fac := get_sample_rate m\<rparr>, width m))
      of Inl e \<Rightarrow> Inl e
       | Inr (m1, zoom) \<Rightarrow>
           (if zoom < SDR_SAMPLE_SIZE then Inr (m1, zoom, py_slice 0 (zoom + 2) samples)
            else Inr (m1\<lparr>zoom_fac := get_sample_rate m1\<rparr>, width m1,
                      py_slice 0 (width m1 + 2) samples)))"

text \<open>Lines 303 to 322: the window for the configured filter.\<close>

definition choose_window :: "taper \<Rightarrow> model \<Rightarrow> int \<Rightarrow> win" where
  "choose_window tp m zoom =
     (if filter_name m = ''kaiser''
      then Coeffs (py_slice 0 (zoom + 2) (signal_window tp (Kaiser (kaiser_beta m)) SDR_SAMPLE_SIZE))
      else if filter_name m = ''boxcar''
      then Coeffs (py_slice 0 (zoom + 2) (signal_boxcar SDR_SAMPLE_SIZE))
      else if filter_name m = ''hann''
      then Coeffs (py_slice 0 (zoom + 2) (signal_window tp Hann SDR_SAMPLE_SIZE))
      else if filter_name m = ''hamming''
      then Coeffs (py_slice 0 (zoom + 2) (signal_window tp Hamming SDR_SAMPLE_SIZE))
      else if filter_name m = ''blackman''
      then Coeffs (py_slice 0 (zoom + 2) (signal_window tp Blackman SDR_SAMPLE_SIZE))
      else if filter_name m = ''blackmanharris''
      then Coeffs (py_slice 0 (zoom + 2) (signal_window tp Blackmanharris SDR_SAMPLE_SIZE))
      else if filter_name m = ''bartlett''
      then Coeffs (py_slice 0 (zoom + 2) (signal_window tp Bartlett SDR_SAMPLE_SIZE))
      else if filter_name m = ''barthann''
      then Coeffs (py_slice 0 (zoom + 2) (signal_window tp Barthann SDR_SAMPLE_SIZE))
      else if filter_name m = ''nuttall''
      then Coeffs (py_slice 0 (zoom + 2) (signal_window tp Nuttall SDR_SAMPLE_SIZE))
      else Scalar 1)"

text \<open>
  Lines 324 to 337: windowed samples, transform, magnitudes, the two end bins dropped,
  the order reversed when \<open>swap_iq == True\<close>, and the shift.
\<close>

definition shifted_magnitudes :: "model \<Rightarrow> complex list \<Rightarrow> win \<Rightarrow> error + real list" where
  "shifted_magnitudes m freqbins window =
     (case np_multiply freqbins window of Inl e \<Rightarrow> Inl e | Inr samples \<Rightarrow>
      (case fft samples of Inl e \<Rightarrow> Inl e | Inr spectrum \<Rightarrow>
         (let freqs = py_slice 1 (- 1) (map cmod spectrum);
              freqs1 = (if swap_iq m = Some True then rev freqs else freqs)
          in Inr (fftshift freqs1))))"

text \<open>
  Lines 344 to 355: the crop offsets \<open>lextra\<close> and \<open>rextra\<close> from the size of the shifted
  spectrum, the width, the LO shift in pixels and \<open>swap_iq\<close>. The difference
  \<open>freqs.size - self.width\<close> is positive here, where Python's \<open>/\<close> on integers followed
  by \<open>int\<close> is the floored half.
\<close>

definition crop_offsets :: "int \<Rightarrow> int \<Rightarrow> int \<Rightarrow> bool option \<Rightarrow> error + (int \<times> int)" where
  "crop_offsets fsize w shiftsweep swap =
     (let extra_samples = (fsize - w) div 2 in
      case (if extra_samples > \<bar>shiftsweep\<bar>
            then (if swap = Some True then Inr (extra_samples + shiftsweep)
                  else if swap = Some False then Inr (extra_samples - shiftsweep)
                  else Inl UnboundLocalError)
            else Inr extra_samples)
      of Inl e \<Rightarrow> Inl e
       | Inr lextra \<Rightarrow> Inr (lextra, fsize - (lextra + w)))"

text \<open>Lines 340 to 356: the truncation to the width of the screen.\<close>

definition truncate_freqs :: "model \<Rightarrow> real list \<Rightarrow> error + (model \<times> real list)" where
  "truncate_freqs m freqs =
     (if int (length freqs) > width m
      then (case get_freq_step m of Inl e \<Rightarrow> Inl e | Inr (m1, freq_step) \<Rightarrow>
              (if freq_step = 0 then Inl ZeroDivisionError
               else
                 (case crop_offsets (int (length freqs)) (width m1)
                         (py_int (lo_offset m1 * 1000000 / freq_step)) (swap_iq m1)
                  of Inl e \<Rightarrow> Inl e
                   | Inr (lextra, rextra) \<Rightarrow> Inr (m1, py_slice lextra (- rextra) freqs))))
      else Inr (m, freqs))"

text \<open>Line 359: \<open>20.0*np.log10(freqs)\<close>.\<close>

definition to_decibels :: "real list \<Rightarrow> npfloat list" where
  "to_decibels freqs = map (\<lambda>x. fl_mult (Fin 20) (np_log10 x)) freqs"

text \<open>Lines 368 to 371: the minimum, when it is auto-scaled.\<close>

definition update_min :: "model \<Rightarrow> npfloat list \<Rightarrow> error + model" where
  "update_min m freqs =
     (if min_auto_scale m
      then (case np_min freqs of Inl e \<Rightarrow> Inl e | Inr lo \<Rightarrow>
              Inr (m\<lparr>min_intensity :=
                      Some (case min_intensity m of None \<Rightarrow> lo | Some old \<Rightarrow> py_min lo old)\<rparr>))
      else Inr m)"

text \<open>Lines 372 to 375: the maximum, when it is auto-scaled.\<close>

definition update_max :: "model \<Rightarrow> npfloat list \<Rightarrow> error + model" where
  "update_max m freqs =
     (if max_auto_scale m
      then (case np_max freqs of Inl e \<Rightarrow> Inl e | Inr hi \<Rightarrow>
              Inr (m\<lparr>max_intensity :=
                      Some (case max_intensity m of None \<Rightarrow> hi | Some old \<Rightarrow> py_max hi old)\<rparr>))
      else Inr m)"

text \<open>Line 377: the range; a bound that is still \<open>None\<close> cannot be subtracted.\<close>

definition update_range :: "model \<Rightarrow> error + model" where
  "update_range m =
     (case (max_intensity m, min_intensity m) of
        (Some hi, Some lo) \<Rightarrow> Inr (m\<lparr>range_intensity := Some (fl_sub hi lo)\<rparr>)
      | _ \<Rightarrow> Inl TypeError)"

text \<open>Lines 368 to 377: the auto-scaled bounds and the range.\<close>

definition update_intensity :: "model \<Rightarrow> npfloat list \<Rightarrow> error + model" where
  "update_intensity m freqs =
     (case update_min m freqs of Inl e \<Rightarrow> Inl e | Inr m1 \<Rightarrow>
      (case update_max m1 freqs of Inl e \<Rightarrow> Inl e | Inr m2 \<Rightarrow> update_range m2))"

text \<open>
  Lines 287 to 356 of \<open>get_data\<close>: the magnitude spectrum, cut to the screen, before the
  conversion to decibels.
\<close>

definition spectrum :: "taper \<Rightarrow> model \<Rightarrow> complex list \<Rightarrow> error + (model \<times> real list)" where
  "spectrum tp m samples =
     (case take_samples m samples of Inl e \<Rightarrow> Inl e | Inr (m1, zoom, freqbins) \<Rightarrow>
     (case shifted_magnitudes m1 freqbins (choose_window tp m1 zoom) of Inl e \<Rightarrow> Inl e
      | Inr freqs \<Rightarrow> truncate_freqs m1 freqs))"

text \<open>\<open>get_data\<close>: the new state of the model and the frame returned.\<close>

definition get_data :: "taper \<Rightarrow> model \<Rightarrow> complex list \<Rightarrow> error + (model \<times> npfloat list)" where
  "get_data tp m samples =
     (case spectrum tp m samples of Inl e \<Rightarrow> Inl e | Inr (m2, freqs) \<Rightarrow>
     (case update_intensity m2 (to_decibels freqs) of Inl e \<Rightarrow> Inl e
      | Inr m3 \<Rightarrow> Inr (m3, to_decibels freqs)))"

text \<open>
  A run of frames: \<open>get_data\<close> once for each read of the device, in order, with the
  frames it returned.
\<close>

fun get_frames :: "taper \<Rightarrow> model \<Rightarrow> complex list list \<Rightarrow> error + (model \<times> npfloat list list)" where
  "get_frames tp m [] = Inr (m, [])"
| "get_frames tp m (samples # reads) =
     (case get_data tp m samples of Inl e \<Rightarrow> Inl e | Inr (m1, frame) \<Rightarrow>
      (case get_frames tp m1 reads of Inl e \<Rightarrow> Inl e
       | Inr (m2, frames) \<Rightarrow> Inr (m2, frame # frames)))"

section \<open>views.py: the frame history of InstantSpectrogram\<close>

text \<open>
  The attributes of \<open>InstantSpectrogram\<close> that hold the frame history. \<open>freqgrabs\<close> is a
  two-dimensional array, kept as the list of its rows.
\<close>

record view =
  checkfirst :: int
  freqsfirst :: "npfloat list"
  freqsinit :: "npfloat list list"
  freqgrabs :: "npfloat list list"

text \<open>\<open>np.tile(row, (reps, 1))\<close>.\<close>

definition np_tile :: "'a list \<Rightarrow> int \<Rightarrow> error + 'a list list" where
  "np_tile row reps = (if reps < 0 then Inl ValueError else Inr (replicate (nat reps) row))"

text \<open>\<open>np.copyto(dst, src)\<close> on rows: the new contents of \<open>dst\<close>. A source of one element
  is broadcast, any other length mismatch raises.\<close>

definition np_copyto :: "'a list \<Rightarrow> 'a list \<Rightarrow> error + 'a list" where
  "np_copyto dst src =
     (if length src = length dst then Inr src
      else if length src = 1 then Inr (replicate (length dst) (hd src))
      else Inl ValueError)"

text \<open>\<open>np.copyto(g[i], src)\<close>: the array with row \<open>i\<close> overwritten.\<close>

definition copy_into_row :: "'a list list \<Rightarrow> int \<Rightarrow> 'a list \<Rightarrow> error + 'a list list" where
  "copy_into_row g i src =
     (case py_index (length g) i of Inl e \<Rightarrow> Inl e | Inr j \<Rightarrow>
      (case np_copyto (g ! j) src of Inl e \<Rightarrow> Inl e | Inr r \<Rightarrow> Inr (g[j := r])))"

text \<open>The loop \<open>for i in range(1, fft_ave+1): np.copyto(freqgrabs[i-1], freqgrabs[i])\<close>,
  over the list of its indices.\<close>

fun shift_rows :: "int list \<Rightarrow> 'a list list \<Rightarrow> error + 'a list list" where
  "shift_rows [] g = Inr g"
| "shift_rows (i # rest) g =
     (case py_nth g i of Inl e \<Rightarrow> Inl e | Inr src \<Rightarrow>
      (case copy_into_row g (i - 1) src of Inl e \<Rightarrow> Inl e
       | Inr g1 \<Rightarrow> shift_rows rest g1))"

text \<open>
  \<open>np.max(g, axis=0)\<close> and \<open>np.average(g, axis=0)\<close>: one value for each column. The
  maximum of an array without rows raises. The average of an array without rows is not
  reached in \<open>render_spectrogram\<close>, where the row write before it raises.
\<close>

definition np_max_axis0 :: "npfloat list list \<Rightarrow> error + npfloat list" where
  "np_max_axis0 g =
     (case g of [] \<Rightarrow> Inl ValueError
      | r # rs \<Rightarrow>
          Inr (map (\<lambda>i. fold (\<lambda>b a. np_maximum a b) (map (\<lambda>x. x ! i) rs) (r ! i))
                 [0..<length r]))"

definition np_average_axis0 :: "npfloat list list \<Rightarrow> error + npfloat list" where
  "np_average_axis0 g =
     (case g of [] \<Rightarrow> Inl ValueError
      | r # rs \<Rightarrow>
          Inr (map (\<lambda>i. fl_div_count
                          (fold (\<lambda>b a. fl_add a b) (map (\<lambda>x. x ! i) rs) (r ! i)) (length g))
                 [0..<length r]))"

text \<open>\<open>InstantSpectrogram.__init__\<close>, with the samples its call of \<open>get_data\<close> reads.\<close>

definition InstantSpectrogram_init ::
  "taper \<Rightarrow> model \<Rightarrow> complex list \<Rightarrow> error + (model \<times> view)" where
  "InstantSpectrogram_init tp m samples =
     (case fft_ave m of AveMethod \<Rightarrow> Inl TypeError | Ave k \<Rightarrow>
      (case get_data tp m samples of Inl e \<Rightarrow> Inl e | Inr (m1, first) \<Rightarrow>
       (case np_tile first (k + 1) of Inl e \<Rightarrow> Inl e
        | Inr rows \<Rightarrow>
            Inr (m1, \<lparr>checkfirst = k + 1, freqsfirst = first,
                      freqsinit = rows, freqgrabs = rows\<rparr>))))"

text \<open>
  Lines 839 to 843 of \<open>render_spectrogram\<close>: the history is rebuilt from a frame that a
  second \<open>get_data\<close> acquires (from the read \<open>samples2\<close>) when the size of the frame just
  acquired differs from that of \<open>freqsfirst\<close>, or \<open>checkfirst\<close> from \<open>fft_ave + 1\<close>.
\<close>

definition refresh_history ::
  "taper \<Rightarrow> view \<Rightarrow> model \<Rightarrow> int \<Rightarrow> npfloat list \<Rightarrow> complex list
     \<Rightarrow> error + (model \<times> view)" where
  "refresh_history tp v m k freqslast samples2 =
     (if length (freqsfirst v) \<noteq> length freqslast \<or> checkfirst v \<noteq> k + 1
      then (case get_data tp m samples2 of Inl e \<Rightarrow> Inl e | Inr (m2, first) \<Rightarrow>
            (case np_tile first (k + 1) of Inl e \<Rightarrow> Inl e
             | Inr rows \<Rightarrow>
                 Inr (m2, v\<lparr>checkfirst := k + 1, freqsfirst := first,
                            freqsinit := rows, freqgrabs := rows\<rparr>)))
      else Inr (m, v))"

text \<open>Lines 847 to 849: every row moves one place down and the frame just acquired is
  written into row \<open>fft_ave\<close>.\<close>

definition push_frame :: "'a list list \<Rightarrow> int \<Rightarrow> 'a list \<Rightarrow> error + 'a list list" where
  "push_frame g k freqslast =
     (case shift_rows [1..k] g of Inl e \<Rightarrow> Inl e | Inr g1 \<Rightarrow> copy_into_row g1 k freqslast)"

text \<open>Lines 852 to 855: the reduction; with \<open>peak\<close> equal to neither \<open>True\<close> nor \<open>False\<close>
  the variable \<open>freqs\<close> is not assigned, and its use on line 860 raises.\<close>

definition reduce_frames :: "bool option \<Rightarrow> npfloat list list \<Rightarrow> error + npfloat list" where
  "reduce_frames pk g =
     (if pk = Some True then np_max_axis0 g
      else if pk = Some False then np_average_axis0 g
      else Inl UnboundLocalError)"

text \<open>
  \<open>InstantSpectrogram.render_spectrogram\<close> up to the reduced frame \<open>freqs\<close> (line 855);
  the drawing that follows is not modelled. \<open>samples\<close> is what the first \<open>get_data\<close>
  reads, \<open>samples2\<close> what the second one reads when the history is rebuilt.
\<close>

definition render_spectrogram ::
  "taper \<Rightarrow> view \<Rightarrow> model \<Rightarrow> complex list \<Rightarrow> complex list
     \<Rightarrow> error + (view \<times> model \<times> npfloat list)" where
  "render_spectrogram tp v m samples samples2 =
     (case get_data tp m samples of Inl e \<Rightarrow> Inl e | Inr (m1, freqslast) \<Rightarrow>
     (case fft_ave m1 of AveMethod \<Rightarrow> Inl TypeError | Ave k \<Rightarrow>
     (case refresh_history tp v m1 k freqslast samples2 of Inl e \<Rightarrow> Inl e
      | Inr (m2, v1) \<Rightarrow>
     (case push_frame (freqgrabs v1) k freqslast of Inl e \<Rightarrow> Inl e | Inr g2 \<Rightarrow>
     (case reduce_frames (peak m2) g2 of Inl e \<Rightarrow> Inl e
      | Inr freqs \<Rightarrow> Inr (v1\<lparr>freqgrabs := g2\<rparr>, m2, freqs))))))"

section \<open>Concrete inputs\<close>

text \<open>
  A device, a read of 8192 samples that is a unit impulse, a silent read, a read that is
  an impulse of amplitude 10, a window library whose every coefficient is 1, and the
  model that \<open>__init__\<close> builds for that device and a screen 240 pixels high.
\<close>

definition dev0 :: rtlsdr where
  "dev0 = \<lparr>dev_center_freq = 80000000, dev_sample_rate = 1024000, dev_gain = 0,
            dev_manual_gain = False, dev_freq_correction = 0\<rparr>"

definition impulse :: "complex list" where
  "impulse = 1 # replicate 8191 0"

definition silence :: "complex list" where
  "silence = replicate 8192 0"

definition loud :: "complex list" where
  "loud = 10 # replicate 8191 0"

definition flat_taper :: taper where
  "flat_taper s M n = 1"

definition default_model :: "int \<Rightarrow> model" where
  "default_model w =
     \<lparr>width = w, height = 240, min_auto_scale = False, max_auto_scale = False,
      min_intensity = Some (Fin (- 10)), max_intensity = Some (Fin 50),
      range_intensity = None,
      sdr = \<lparr>dev_center_freq = 70481500, dev_sample_rate = 230000, dev_gain = 0,
              dev_manual_gain = False, dev_freq_correction = 1\<rparr>,
      freq_correction = 0, swap_iq = Some True, sample_rate = None, zoom_fac = 5 / 100,
      lo_offset = 3 / 100, center_freq = 704515 / 10000, auto_gain = True,
      fft_ave = Ave 3, tune_rate = 1 / 1000, sig_strength = 0, kaiser_beta = 86 / 10,
      peak = Some True, filter_name = ''nuttall''\<rparr>"

text \<open>
  A model two pixels wide with both bounds auto-scaled, and the same model after a frame
  whose values are all 0 dB.
\<close>

definition auto_model :: model where
  "auto_model = set_max_intensity (set_min_intensity (default_model 2) AUTO) AUTO"

definition seen_model :: model where
  "seen_model = auto_model\<lparr>min_intensity := Some (Fin 0), max_intensity := Some (Fin 0),
                             range_intensity := Some (Fin 0)\<rparr>"

text \<open>
  The two-pixel model with both bounds auto-scaled, for any values of the bounds, the
  range and \<open>fft_ave\<close>.
\<close>

definition two_pixel_model ::
  "npfloat option \<Rightarrow> npfloat option \<Rightarrow> npfloat option \<Rightarrow> ave \<Rightarrow> model" where
  "two_pixel_model lo hi r k =
     (default_model 2)\<lparr>min_auto_scale := True, max_auto_scale := True, min_intensity := lo,
                        max_intensity := hi, range_intensity := r, fft_ave := k\<rparr>"

text \<open>The view that \<open>InstantSpectrogram.__init__\<close> builds for \<open>auto_model\<close> from a
  unit impulse: four rows of 0 dB.\<close>

definition first_view :: view where
  "first_view =
     \<lparr>checkfirst = 4, freqsfirst = [Fin 0, Fin 0],
      freqsinit = [[Fin 0, Fin 0], [Fin 0, Fin 0], [Fin 0, Fin 0], [Fin 0, Fin 0]],
      freqgrabs = [[Fin 0, Fin 0], [Fin 0, Fin 0], [Fin 0, Fin 0], [Fin 0, Fin 0]]\<rparr>"

text \<open>
  The auto-scaled bounds are unresolved and the range is cleared: what
  \<open>_clear_intensity\<close> establishes.
\<close>

definition intensity_cleared :: "model \<Rightarrow> bool" where
  "intensity_cleared m \<longleftrightarrow>
     (min_auto_scale m \<longrightarrow> min_intensity m = None)
     \<and> (max_auto_scale m \<longrightarrow> max_intensity m = None)
     \<and> range_intensity m = None"

text \<open>The filter names that \<open>get_data\<close> compares with, in its order.\<close>

definition window_names :: "string list" where
  "window_names = [''kaiser'', ''boxcar'', ''hann'', ''hamming'', ''blackman'',
                   ''blackmanharris'', ''bartlett'', ''barthann'', ''nuttall'']"

section \<open>Slices and the lengths of the stages\<close>

lemma length_py_slice_0:
  "0 \<le> b \<Longrightarrow> length (py_slice 0 b xs) = min (nat b) (length xs)"
  by (auto simp: py_slice_def py_bound_def Let_def)

lemma length_py_slice_ends: "length (py_slice 1 (- 1) xs) = length xs - 2"
  by (auto simp: py_slice_def py_bound_def Let_def)

lemma length_py_slice_crop:
  "0 \<le> l \<Longrightarrow> 0 < r \<Longrightarrow> l + r \<le> int (length xs)
   \<Longrightarrow> int (length (py_slice l (- r) xs)) = int (length xs) - l - r"
  by (auto simp: py_slice_def py_bound_def Let_def)

lemma length_fftshift: "length (fftshift xs) = length xs"
  by (simp add: fftshift_def)

lemma set_fftshift: "set (fftshift xs) = set xs"
proof -
  have "set (fftshift xs)
        = set (take ((length xs + 1) div 2) xs @ drop ((length xs + 1) div 2) xs)"
    unfolding fftshift_def by (simp only: set_append Un_commute)
  then show ?thesis by (simp only: append_take_drop_id)
qed

lemma set_py_slice: "set (py_slice a b xs) \<subseteq> set xs"
  unfolding py_slice_def Let_def
  by (meson set_take_subset set_drop_subset subset_trans)

lemma fft_returns: "xs \<noteq> [] \<Longrightarrow> \<exists>ys. fft xs = Inr ys \<and> length ys = length xs"
  by (simp add: fft_def)

lemma np_multiply_returns:
  assumes "w = Scalar c \<or> (\<exists>cs. w = Coeffs cs \<and> length cs = length xs)"
  shows "\<exists>ys. np_multiply xs w = Inr ys \<and> length ys = length xs"
  using assms by (auto simp: np_multiply_def)

lemma shifted_magnitudes_returns:
  assumes "w = Scalar c \<or> (\<exists>cs. w = Coeffs cs \<and> length cs = length xs)" and "xs \<noteq> []"
  shows "\<exists>fs. shifted_magnitudes m xs w = Inr fs \<and> length fs = length xs - 2
           \<and> (\<forall>x\<in>set fs. 0 \<le> x)"
proof -
  from np_multiply_returns[OF assms(1)] obtain ys
    where ys: "np_multiply xs w = Inr ys" "length ys = length xs" by blast
  with assms(2) have "ys \<noteq> []" by auto
  from fft_returns[OF this] obtain zs where zs: "fft ys = Inr zs" "length zs = length ys"
    by blast
  let ?f = "py_slice 1 (- 1) (map cmod zs)"
  have nn: "\<forall>x\<in>set ?f. 0 \<le> x"
    using set_py_slice[of 1 "- 1" "map cmod zs"] by auto
  show ?thesis
    using ys zs nn
    by (simp add: shifted_magnitudes_def Let_def length_py_slice_ends length_fftshift set_fftshift)
qed

lemma length_py_slice_cong:
  "length xs = length ys \<Longrightarrow> length (py_slice a b xs) = length (py_slice a b ys)"
  by (simp add: py_slice_def Let_def)

lemma length_signal_window: "length (signal_window tp s SDR_SAMPLE_SIZE) = 8192"
  by (simp add: signal_window_def SDR_SAMPLE_SIZE_def)

lemma length_signal_boxcar: "length (signal_boxcar SDR_SAMPLE_SIZE) = 8192"
  by (simp add: signal_boxcar_def SDR_SAMPLE_SIZE_def)

lemma choose_window_length:
  assumes "length samples = 8192"
  shows "choose_window tp m zoom = Scalar 1
   \<or> (\<exists>cs. choose_window tp m zoom = Coeffs cs
         \<and> length cs = length (py_slice 0 (zoom + 2) samples))"
proof -
  have a: "length (py_slice 0 (zoom + 2) (signal_window tp s SDR_SAMPLE_SIZE))
           = length (py_slice 0 (zoom + 2) samples)" for s
    by (rule length_py_slice_cong) (simp add: length_signal_window assms)
  have b: "length (py_slice 0 (zoom + 2) (signal_boxcar SDR_SAMPLE_SIZE))
           = length (py_slice 0 (zoom + 2) samples)"
    by (rule length_py_slice_cong) (simp add: length_signal_boxcar assms)
  show ?thesis
    unfolding choose_window_def using a b by simp
qed

lemma crop_offsets_returns:
  assumes "1 \<le> w" "w < fsize" "swap = Some b"
  shows "\<exists>lextra rextra. crop_offsets fsize w shiftsweep swap = Inr (lextra, rextra)
           \<and> 0 \<le> lextra \<and> 1 \<le> rextra \<and> lextra + w + rextra = fsize"
  using assms by (cases b) (auto simp: crop_offsets_def Let_def)

lemma py_int_ge:
  assumes "real_of_int w \<le> x" "0 \<le> w"
  shows "w \<le> py_int x"
  using assms by (simp add: py_int_def le_floor_iff)

lemma zoom_ge_width:
  assumes "0 < zf" "zf < r" "1 \<le> (w::int)"
  shows "w \<le> py_int (of_int w * (r / zf))"
proof (rule py_int_ge)
  have "1 \<le> r / zf" using assms by simp
  then have "real_of_int w * 1 \<le> real_of_int w * (r / zf)"
    using assms(3) by (intro mult_left_mono) auto
  then show "real_of_int w \<le> real_of_int w * (r / zf)" by simp
  show "0 \<le> w" using assms by simp
qed

lemma take_samples_returns:
  assumes "0 < zoom_fac m" "1 \<le> width m"
  shows "\<exists>m1 zoom. take_samples m samples = Inr (m1, zoom, py_slice 0 (zoom + 2) samples)
           \<and> width m1 = width m \<and> swap_iq m1 = swap_iq m \<and> lo_offset m1 = lo_offset m
           \<and> sdr m1 = sdr m \<and> width m \<le> zoom
           \<and> (m1 = m \<or> m1 = m\<lparr>zoom_fac := get_sample_rate m\<rparr>)
           \<and> (zoom = width m
               \<or> (zoom < 8192 \<and> m1 = m \<and> zoom_fac m < dev_sample_rate (sdr m) / 1000000
                  \<and> zoom = py_int (of_int (width m)
                                * ((dev_sample_rate (sdr m) / 1000000) / zoom_fac m))))"
proof (cases "zoom_fac m < dev_sample_rate (sdr m) / 1000000")
  case True
  let ?z = "py_int (of_int (width m) * ((dev_sample_rate (sdr m) / 1000000) / zoom_fac m))"
  have ge: "width m \<le> ?z" using zoom_ge_width[OF assms(1) True assms(2)] .
  show ?thesis
  proof (cases "?z < 8192")
    case z: True
    then show ?thesis using True assms ge
      by (simp add: take_samples_def SDR_SAMPLE_SIZE_def)
  next
    case z: False
    then show ?thesis using True assms
      by (simp add: take_samples_def SDR_SAMPLE_SIZE_def get_sample_rate_def)
  qed
next
  case False
  then show ?thesis using assms
    by (simp add: take_samples_def SDR_SAMPLE_SIZE_def get_sample_rate_def)
qed

lemma get_freq_step_returns:
  assumes "0 < zoom_fac m" "zoom_fac m < dev_sample_rate (sdr m) / 1000000" "1 \<le> width m"
  shows "\<exists>step. get_freq_step m = Inr (m, step) \<and> step \<noteq> 0"
proof -
  let ?z = "py_int (of_int (width m) * ((dev_sample_rate (sdr m) / 1000000) / zoom_fac m))"
  have ge: "width m \<le> ?z" using zoom_ge_width[OF assms(1) assms(2) assms(3)] .
  then have "?z + 2 \<noteq> 0" "real_of_int ?z + 2 \<noteq> 0" using assms(3) by linarith+
  moreover have "dev_sample_rate (sdr m) \<noteq> 0" using assms by auto
  ultimately show ?thesis using assms
    by (simp add: get_freq_step_def)
qed


lemma truncate_freqs_keeps:
  "\<not> width m < int (length fs) \<Longrightarrow> truncate_freqs m fs = Inr (m, fs)"
  by (simp add: truncate_freqs_def)

lemma truncate_freqs_crops:
  assumes "0 < zoom_fac m" "zoom_fac m < dev_sample_rate (sdr m) / 1000000" "1 \<le> width m"
    and "width m < int (length fs)" "swap_iq m = Some b"
  shows "\<exists>out. truncate_freqs m fs = Inr (m, out) \<and> int (length out) = width m
           \<and> set out \<subseteq> set fs"
proof -
  from get_freq_step_returns[OF assms(1-3)] obtain step
    where st: "get_freq_step m = Inr (m, step)" "step \<noteq> 0" by blast
  from crop_offsets_returns[OF assms(3) assms(4) assms(5)] obtain l r
    where lr: "crop_offsets (int (length fs)) (width m)
                 (py_int (lo_offset m * 1000000 / step)) (swap_iq m) = Inr (l, r)"
      "0 \<le> l" "1 \<le> r" "l + width m + r = int (length fs)" by blast
  have "int (length (py_slice l (- r) fs)) = int (length fs) - l - r"
    using lr assms(3) by (intro length_py_slice_crop) auto
  then have len: "int (length (py_slice l (- r) fs)) = width m" using lr(4) by linarith
  show ?thesis
    using assms(4) st lr(1) len set_py_slice[of l "- r" fs]
    by (simp add: truncate_freqs_def)
qed

lemma spectrum_returns:
  assumes "0 < zoom_fac m" "1 \<le> width m" "length samples = 8192" "swap_iq m = Some b"
  shows "\<exists>m2 mags. spectrum tp m samples = Inr (m2, mags)
           \<and> int (length mags) = min (width m) 8190 \<and> (\<forall>x\<in>set mags. 0 \<le> x)
           \<and> (m2 = m \<or> m2 = m\<lparr>zoom_fac := get_sample_rate m\<rparr>)"
proof -
  from take_samples_returns[OF assms(1,2), of samples] obtain m1 zoom
    where ts: "take_samples m samples = Inr (m1, zoom, py_slice 0 (zoom + 2) samples)"
      and m1: "width m1 = width m" "swap_iq m1 = swap_iq m"
        "m1 = m \<or> m1 = m\<lparr>zoom_fac := get_sample_rate m\<rparr>"
      and z: "width m \<le> zoom"
        "zoom = width m
         \<or> (zoom < 8192 \<and> m1 = m \<and> zoom_fac m < dev_sample_rate (sdr m) / 1000000
            \<and> zoom = py_int (of_int (width m)
                          * ((dev_sample_rate (sdr m) / 1000000) / zoom_fac m)))"
    by blast
  let ?bins = "py_slice 0 (zoom + 2) samples"
  have lb: "length ?bins = min (nat (zoom + 2)) 8192"
    using z(1) assms(2,3) by (simp add: length_py_slice_0)
  then have ne: "?bins \<noteq> []" using z(1) assms(2) by auto
  have w: "choose_window tp m1 zoom = Scalar 1
           \<or> (\<exists>cs. choose_window tp m1 zoom = Coeffs cs \<and> length cs = length ?bins)"
    using choose_window_length[OF assms(3)] .
  from shifted_magnitudes_returns[OF w ne, of m1] obtain fs
    where fs: "shifted_magnitudes m1 ?bins (choose_window tp m1 zoom) = Inr fs"
      "length fs = length ?bins - 2" "\<forall>x\<in>set fs. 0 \<le> x" by blast
  have lfs: "int (length fs) = min zoom 8190"
    using fs(2) lb z(1) assms(2) by auto
  show ?thesis
  proof (cases "width m < int (length fs)")
    case True
    with lfs z have zz: "m1 = m" "zoom_fac m < dev_sample_rate (sdr m) / 1000000"
      by auto
    from truncate_freqs_crops[OF assms(1) zz(2) assms(2) True assms(4)] obtain out
      where out: "truncate_freqs m fs = Inr (m, out)" "int (length out) = width m"
        "set out \<subseteq> set fs" by blast
    have "int (length out) = min (width m) 8190" using out(2) True lfs by auto
    moreover have "\<forall>x\<in>set out. 0 \<le> x" using out(3) fs(3) by auto
    ultimately show ?thesis using ts fs(1) out(1) zz(1)
      by (simp add: spectrum_def)
  next
    case False
    then have "truncate_freqs m1 fs = Inr (m1, fs)"
      using m1(1) by (simp add: truncate_freqs_keeps)
    moreover have "int (length fs) = min (width m) 8190" using False lfs z(1) by auto
    ultimately show ?thesis using ts fs(1,3) m1(3)
      by (simp add: spectrum_def)
  qed
qed

lemma update_intensity_returns:
  assumes "freqs \<noteq> []" "min_auto_scale m \<or> min_intensity m \<noteq> None"
    "max_auto_scale m \<or> max_intensity m \<noteq> None"
  shows "\<exists>m3. update_intensity m freqs = Inr m3"
  using assms
  by (cases freqs)
    (auto simp: update_intensity_def update_min_def update_max_def update_range_def
      np_min_def np_max_def split: option.splits)

lemma get_data_returns:
  assumes "0 < zoom_fac m" "1 \<le> width m" "length samples = 8192" "swap_iq m = Some b"
    and "min_auto_scale m \<or> min_intensity m \<noteq> None"
    and "max_auto_scale m \<or> max_intensity m \<noteq> None"
  shows "\<exists>m3 frame. get_data tp m samples = Inr (m3, frame)
           \<and> int (length frame) = min (width m) 8190"
proof -
  from spectrum_returns[OF assms(1-4), of tp] obtain m2 mags
    where sp: "spectrum tp m samples = Inr (m2, mags)"
      "int (length mags) = min (width m) 8190"
      "m2 = m \<or> m2 = m\<lparr>zoom_fac := get_sample_rate m\<rparr>" by blast
  have ne: "to_decibels mags \<noteq> []" using sp(2) assms(2) by (auto simp: to_decibels_def)
  have "min_auto_scale m2 \<or> min_intensity m2 \<noteq> None"
    "max_auto_scale m2 \<or> max_intensity m2 \<noteq> None"
    using sp(3) assms(5,6) by auto
  from update_intensity_returns[OF ne this] obtain m3
    where "update_intensity m2 (to_decibels mags) = Inr m3" by blast
  then show ?thesis using sp(1,2) by (simp add: get_data_def to_decibels_def)
qed

lemma length_impulse: "length impulse = 8192"
  by (simp add: impulse_def)

section \<open>The model after \_\_init\_\_\<close>

lemma FreqShowModel_init_dev0: "FreqShowModel_init w 240 dev0 = Inr (default_model w)"
  by (simp add: FreqShowModel_init_def default_model_def dev0_def set_max_intensity_def
      set_min_intensity_def clear_intensity_def set_freq_correction_def set_lo_offset_def
      set_zoom_fac_def set_sample_rate_def set_swap_iq_def set_center_freq_def set_gain_def
      set_filter_def set_peak_def set_kaiser_beta_def set_sig_strength_def set_tune_rate_def
      set_fft_ave_def get_sample_rate_def py_int_def Let_def)

section \<open>One frame of the two-pixel model\<close>

lemma auto_model_eq:
  "auto_model = (default_model 2)\<lparr>min_auto_scale := True, max_auto_scale := True,
      min_intensity := None, max_intensity := None\<rparr>"
  by (simp add: auto_model_def set_max_intensity_def set_min_intensity_def clear_intensity_def
      default_model_def)

lemma take_samples_auto_model: "take_samples auto_model impulse = Inr (auto_model, 9, [1,0,0,0,0,0,0,0,0,0,0])"
  by (simp add: take_samples_def auto_model_eq default_model_def impulse_def SDR_SAMPLE_SIZE_def py_slice_def py_bound_def py_int_def Let_def)
    (simp add: eval_nat_numeral)

lemma choose_window_auto_model: "choose_window flat_taper auto_model 9 = Coeffs [1,1,1,1,1,1,1,1,1,1,1]"
  by (simp add: choose_window_def auto_model_eq default_model_def signal_window_def flat_taper_def SDR_SAMPLE_SIZE_def py_slice_def py_bound_def Let_def
      take_map)
    (simp add: eval_nat_numeral flat_taper_def)

lemma shifted_magnitudes_impulse: "shifted_magnitudes auto_model [1,0,0,0,0,0,0,0,0,0,0] (Coeffs [1,1,1,1,1,1,1,1,1,1,1]) = Inr [1,1,1,1,1,1,1,1,1]"
  by (simp add: shifted_magnitudes_def np_multiply_def fft_def py_slice_def py_bound_def fftshift_def auto_model_eq default_model_def Let_def)

lemma truncate_freqs_auto_model: "truncate_freqs auto_model [1,1,1,1,1,1,1,1,1] = Inr (auto_model, [1,1])"
  by (simp add: truncate_freqs_def get_freq_step_def crop_offsets_def py_int_def py_slice_def py_bound_def auto_model_eq default_model_def Let_def)

lemma to_decibels_ones: "to_decibels [1,1] = [Fin 0, Fin 0]"
  by (simp add: to_decibels_def np_log10_def)

lemma update_intensity_auto_model: "update_intensity auto_model [Fin 0, Fin 0] = Inr seen_model"
  by (simp add: update_intensity_def update_min_def update_max_def update_range_def
      seen_model_def auto_model_eq default_model_def np_min_def np_max_def np_minimum_def
      np_maximum_def fl_sub_def)

lemma get_data_auto_model: "get_data flat_taper auto_model impulse = Inr (seen_model, [Fin 0, Fin 0])"
  by (simp add: get_data_def spectrum_def take_samples_auto_model choose_window_auto_model
      shifted_magnitudes_impulse truncate_freqs_auto_model to_decibels_ones
      update_intensity_auto_model)

section \<open>The filter name and the window\<close>

lemma take_samples_filter:
  "take_samples (m\<lparr>filter_name := f\<rparr>) s
   = (case take_samples m s of Inl e \<Rightarrow> Inl e
      | Inr (m1, z, b) \<Rightarrow> Inr (m1\<lparr>filter_name := f\<rparr>, z, b))"
  by (simp add: take_samples_def get_sample_rate_def)

lemma take_samples_result:
  assumes "take_samples m s = Inr (m1, z, b)"
  shows "b = py_slice 0 (z + 2) s \<and> filter_name m1 = filter_name m
         \<and> (m1 = m \<or> m1 = m\<lparr>zoom_fac := get_sample_rate m\<rparr>)"
  using assms
  by (auto simp: take_samples_def get_sample_rate_def split: if_splits)

lemma get_freq_step_filter:
  "get_freq_step (m\<lparr>filter_name := f\<rparr>)
   = (case get_freq_step m of Inl e \<Rightarrow> Inl e
      | Inr (m1, step) \<Rightarrow> Inr (m1\<lparr>filter_name := f\<rparr>, step))"
  by (simp add: get_freq_step_def get_sample_rate_def)

lemma truncate_freqs_filter:
  "truncate_freqs (m\<lparr>filter_name := f\<rparr>) fs
   = (case truncate_freqs m fs of Inl e \<Rightarrow> Inl e
      | Inr (m1, out) \<Rightarrow> Inr (m1\<lparr>filter_name := f\<rparr>, out))"
proof -
  have w: "get_freq_step m = Inr (m1, step) \<Longrightarrow> width m1 = width m
            \<and> lo_offset m1 = lo_offset m \<and> swap_iq m1 = swap_iq m" for m1 step
    by (auto simp: get_freq_step_def split: if_splits)
  show ?thesis
    by (cases "get_freq_step m")
      (auto simp: truncate_freqs_def get_freq_step_filter split: sum.splits dest: w)
qed

lemma update_intensity_filter:
  "update_intensity (m\<lparr>filter_name := f\<rparr>) fs
   = (case update_intensity m fs of Inl e \<Rightarrow> Inl e | Inr m1 \<Rightarrow> Inr (m1\<lparr>filter_name := f\<rparr>))"
proof -
  have a: "update_min (m\<lparr>filter_name := f\<rparr>) fs
           = (case update_min m fs of Inl e \<Rightarrow> Inl e | Inr m1 \<Rightarrow> Inr (m1\<lparr>filter_name := f\<rparr>))"
    for m
    by (simp add: update_min_def split: sum.splits)
  have b: "update_max (m\<lparr>filter_name := f\<rparr>) fs
           = (case update_max m fs of Inl e \<Rightarrow> Inl e | Inr m1 \<Rightarrow> Inr (m1\<lparr>filter_name := f\<rparr>))"
    for m
    by (simp add: update_max_def split: sum.splits)
  have c: "update_range (m\<lparr>filter_name := f\<rparr>)
           = (case update_range m of Inl e \<Rightarrow> Inl e | Inr m1 \<Rightarrow> Inr (m1\<lparr>filter_name := f\<rparr>))"
    for m
    by (simp add: update_range_def split: option.splits)
  show ?thesis
    by (simp add: update_intensity_def a b c split: sum.splits)
qed

lemma shifted_magnitudes_filter:
  "shifted_magnitudes (m\<lparr>filter_name := f\<rparr>) b w = shifted_magnitudes m b w"
  by (simp add: shifted_magnitudes_def Let_def split: sum.splits)

lemma choose_window_boxcar:
  "choose_window tp (m\<lparr>filter_name := ''boxcar''\<rparr>) zoom
   = Coeffs (py_slice 0 (zoom + 2) (signal_boxcar SDR_SAMPLE_SIZE))"
  by (simp add: choose_window_def)

lemma choose_window_unrecognized:
  "filter_name m \<notin> set window_names \<Longrightarrow> choose_window tp m zoom = Scalar 1"
  by (simp add: choose_window_def window_names_def)

lemma py_slice_replicate:
  "py_slice a b (replicate n x) = replicate (length (py_slice a b (replicate n x))) x"
  by (simp add: py_slice_def Let_def)

lemma map2_replicate:
  "map2 f xs (replicate (length xs) c) = map (\<lambda>z. f z c) xs"
  by (induction xs) simp_all

lemma np_multiply_boxcar:
  assumes "length samples = 8192"
  shows "np_multiply (py_slice 0 b samples) (Coeffs (py_slice 0 b (signal_boxcar SDR_SAMPLE_SIZE)))
         = np_multiply (py_slice 0 b samples) (Scalar 1)"
proof -
  let ?xs = "py_slice 0 b samples"
  have len: "length (py_slice 0 b (replicate 8192 (1::real))) = length ?xs"
    by (rule length_py_slice_cong) (simp add: assms)
  have "py_slice 0 b (signal_boxcar SDR_SAMPLE_SIZE) = replicate (length ?xs) 1"
    unfolding signal_boxcar_def SDR_SAMPLE_SIZE_def
    using py_slice_replicate[of 0 b 8192 "1::real"] len by simp
  then show ?thesis
    by (simp add: np_multiply_def map2_replicate)
qed

lemma get_data_unrecognized_filter:
  "get_data tp (set_filter auto_model ''triangle'') impulse
   = Inr (set_filter seen_model ''triangle'', [Fin 0, Fin 0])"
proof -
  have w: "choose_window tp (auto_model\<lparr>filter_name := ''triangle''\<rparr>) 9 = Scalar 1"
    by (simp add: choose_window_def)
  have sm: "shifted_magnitudes auto_model [1,0,0,0,0,0,0,0,0,0,0] (Scalar 1)
            = Inr [1,1,1,1,1,1,1,1,1]"
    by (simp add: shifted_magnitudes_def np_multiply_def fft_def py_slice_def py_bound_def
        fftshift_def auto_model_eq default_model_def Let_def)
  show ?thesis
    by (simp add: get_data_def spectrum_def set_filter_def take_samples_filter
        take_samples_auto_model w shifted_magnitudes_filter sm truncate_freqs_filter
        truncate_freqs_auto_model to_decibels_ones update_intensity_filter
        update_intensity_auto_model)
qed

lemma length_silence: "length silence = 8192"
  by (simp add: silence_def)

lemma take_samples_silence:
  "take_samples auto_model silence = Inr (auto_model, 9, [0,0,0,0,0,0,0,0,0,0,0])"
  by (simp add: take_samples_def auto_model_eq default_model_def silence_def
      SDR_SAMPLE_SIZE_def py_slice_def py_bound_def py_int_def Let_def)
    (simp add: eval_nat_numeral)

lemma choose_window_nuttall:
  "choose_window tp auto_model 9 = Coeffs (map (tp Nuttall 8192) [0..<11])"
  by (simp add: choose_window_def auto_model_eq default_model_def signal_window_def
      SDR_SAMPLE_SIZE_def py_slice_def py_bound_def Let_def take_map)

lemma shifted_magnitudes_silence:
  "shifted_magnitudes auto_model [0,0,0,0,0,0,0,0,0,0,0] (Coeffs (map (tp Nuttall 8192) [0..<11]))
   = Inr [0,0,0,0,0,0,0,0,0]"
  by (simp add: shifted_magnitudes_def np_multiply_def fft_def py_slice_def py_bound_def
      fftshift_def auto_model_eq default_model_def Let_def)

lemma truncate_freqs_silence:
  "truncate_freqs auto_model [0,0,0,0,0,0,0,0,0] = Inr (auto_model, [0,0])"
  by (simp add: truncate_freqs_def get_freq_step_def crop_offsets_def py_int_def
      py_slice_def py_bound_def auto_model_eq default_model_def Let_def)

lemma spectrum_silence: "spectrum tp auto_model silence = Inr (auto_model, [0, 0])"
  by (simp add: spectrum_def take_samples_silence choose_window_nuttall
      shifted_magnitudes_silence truncate_freqs_silence)

lemma get_data_silence:
  "get_data tp auto_model silence
   = Inr (auto_model\<lparr>min_intensity := Some NegInf, max_intensity := Some NegInf,
                       range_intensity := Some NaN\<rparr>, [NegInf, NegInf])"
  unfolding get_data_def spectrum_silence
  by (simp add: to_decibels_def np_log10_def
      update_intensity_def update_min_def update_max_def update_range_def
      auto_model_eq default_model_def np_min_def np_max_def np_minimum_def
      np_maximum_def fl_sub_def)

text \<open>
  C5, as stated: a window shape outside the nine recognised names is rejected with an
  error and never behaves as the rectangular window. It is not rejected: \<open>set_filter\<close>
  stores the name \<open>triangle\<close>, and \<open>get_data\<close> returns a frame for it.
\<close>

theorem unrecognized_filter_returns_frame:
  "get_data flat_taper (set_filter auto_model ''triangle'') impulse
   = Inr (set_filter seen_model ''triangle'', [Fin 0, Fin 0])"
  by (rule get_data_unrecognized_filter)

text \<open>
  C5, amended: for every filter name outside the nine recognised names, \<open>get_data\<close>
  raises no error for the name: on a read of 8192 samples it fails or returns exactly as
  it does with the filter \<open>boxcar\<close>, with the same frame and the same new state of the
  model (the filter name apart).
\<close>

theorem unrecognized_filter_is_boxcar:
  assumes "filter_name m \<notin> set window_names" "length samples = 8192"
  shows "get_data tp (set_filter m ''boxcar'') samples
         = (case get_data tp m samples of Inl e \<Rightarrow> Inl e
            | Inr (m', frame) \<Rightarrow> Inr (set_filter m' ''boxcar'', frame))"
proof (cases "take_samples m samples")
  case (Inl e)
  then show ?thesis
    by (simp add: get_data_def spectrum_def set_filter_def take_samples_filter)
next
  case (Inr r)
  then obtain m1 z b where r: "take_samples m samples = Inr (m1, z, b)"
    by (cases r) auto
  from take_samples_result[OF r] have b: "b = py_slice 0 (z + 2) samples"
    and f: "filter_name m1 = filter_name m" by auto
  have w: "choose_window tp m1 z = Scalar 1"
    using choose_window_unrecognized assms(1) f by simp
  have sm: "shifted_magnitudes m1 b (choose_window tp (m1\<lparr>filter_name := ''boxcar''\<rparr>) z)
            = shifted_magnitudes m1 b (choose_window tp m1 z)"
    unfolding w choose_window_boxcar b shifted_magnitudes_def
    by (simp only: np_multiply_boxcar[OF assms(2)])
  show ?thesis
    using r sm
    by (simp add: get_data_def spectrum_def set_filter_def take_samples_filter
        shifted_magnitudes_filter truncate_freqs_filter update_intensity_filter
        split: sum.splits)
qed

theorem unrecognized_filter_is_boxcar_witness:
  "filter_name (set_filter auto_model ''triangle'') \<notin> set window_names
   \<and> length impulse = 8192
   \<and> get_data flat_taper (set_filter (set_filter auto_model ''triangle'') ''boxcar'') impulse
       = Inr (set_filter (set_filter seen_model ''triangle'') ''boxcar'', [Fin 0, Fin 0])"
proof -
  have h1: "filter_name (set_filter auto_model ''triangle'') \<notin> set window_names"
    by (simp add: set_filter_def window_names_def)
  have h2: "length impulse = 8192" by (rule length_impulse)
  from unrecognized_filter_is_boxcar[OF h1 h2, of flat_taper] h1 h2 show ?thesis
    by (simp add: get_data_unrecognized_filter)
qed

section \<open>Decibels of an empty bin\<close>

lemma shifted_magnitudes_nonneg:
  assumes "shifted_magnitudes m xs w = Inr fs"
  shows "\<forall>x\<in>set fs. 0 \<le> x"
proof -
  from assms obtain zs where
    fs: "fs = fftshift (if swap_iq m = Some True then rev (py_slice 1 (- 1) (map cmod zs))
                        else py_slice 1 (- 1) (map cmod zs))"
    by (auto simp: shifted_magnitudes_def Let_def split: sum.splits)
  have "set fs \<subseteq> set (map cmod zs)"
    unfolding fs using set_py_slice[of 1 "- 1" "map cmod zs"] by (simp add: set_fftshift)
  then show ?thesis by auto
qed

lemma get_freq_step_model:
  assumes "get_freq_step m = Inr (m1, step)"
  shows "m1 = m \<or> m1 = m\<lparr>zoom_fac := get_sample_rate m\<rparr>"
  using assms by (auto simp: get_freq_step_def split: if_splits)

lemma truncate_freqs_result:
  assumes "truncate_freqs m fs = Inr (m1, out)"
  shows "set out \<subseteq> set fs \<and> (m1 = m \<or> m1 = m\<lparr>zoom_fac := get_sample_rate m\<rparr>)"
proof (cases "width m < int (length fs)")
  case True
  with assms obtain m' step l r where
    g: "get_freq_step m = Inr (m', step)" and o: "m1 = m'" "out = py_slice l (- r) fs"
    by (auto simp: truncate_freqs_def split: sum.splits if_splits)
  show ?thesis using get_freq_step_model[OF g] o set_py_slice[of l "- r" fs] by auto
next
  case False
  with assms show ?thesis by (simp add: truncate_freqs_def)
qed

lemma spectrum_result:
  assumes "spectrum tp m samples = Inr (m2, mags)"
  shows "(\<forall>x\<in>set mags. 0 \<le> x) \<and> (m2 = m \<or> m2 = m\<lparr>zoom_fac := get_sample_rate m\<rparr>)"
proof -
  from assms obtain m1 z b fs where
    ts: "take_samples m samples = Inr (m1, z, b)"
    and sm: "shifted_magnitudes m1 b (choose_window tp m1 z) = Inr fs"
    and tf: "truncate_freqs m1 fs = Inr (m2, mags)"
    by (auto simp: spectrum_def split: sum.splits)
  from take_samples_result[OF ts]
  have m1: "m1 = m \<or> m1 = m\<lparr>zoom_fac := get_sample_rate m\<rparr>" by simp
  from truncate_freqs_result[OF tf]
  have sub: "set mags \<subseteq> set fs"
    and m2: "m2 = m1 \<or> m2 = m1\<lparr>zoom_fac := get_sample_rate m1\<rparr>" by auto
  have "\<forall>x\<in>set mags. 0 \<le> x" using shifted_magnitudes_nonneg[OF sm] sub by auto
  moreover have "m2 = m \<or> m2 = m\<lparr>zoom_fac := get_sample_rate m\<rparr>"
    using m1 m2 by (auto simp: get_sample_rate_def)
  ultimately show ?thesis by simp
qed

lemma decibel_of_nonneg:
  "0 \<le> x \<Longrightarrow> fl_mult (Fin 20) (np_log10 x) = (if x = 0 then NegInf else Fin (20 * log 10 x))"
  by (simp add: np_log10_def)

lemma to_decibels_no_nan:
  assumes "\<forall>x\<in>set mags. 0 \<le> x"
  shows "NaN \<notin> set (to_decibels mags) \<and> PosInf \<notin> set (to_decibels mags)"
  using assms by (auto simp: to_decibels_def decibel_of_nonneg)

lemma fl_lt_NegInf: "x \<noteq> NaN \<Longrightarrow> x \<noteq> NegInf \<Longrightarrow> fl_lt NegInf x"
  by (cases x) simp_all

lemma not_fl_lt_NegInf: "\<not> fl_lt x NegInf"
  by (cases x) simp_all

lemma fold_np_minimum_has_NegInf:
  "NaN \<notin> set ys \<Longrightarrow> acc \<noteq> NaN \<Longrightarrow> NegInf \<in> set ys \<or> acc = NegInf
   \<Longrightarrow> fold (\<lambda>b a. np_minimum a b) ys acc = NegInf"
proof (induction ys arbitrary: acc)
  case Nil
  then show ?case by simp
next
  case (Cons y ys)
  have n: "np_minimum acc y \<noteq> NaN" using Cons.prems by (auto simp: np_minimum_def)
  have "NegInf \<in> set ys \<or> np_minimum acc y = NegInf"
    using Cons.prems by (auto simp: np_minimum_def fl_lt_NegInf not_fl_lt_NegInf)
  with Cons.IH[of "np_minimum acc y"] n Cons.prems show ?case by simp
qed

lemma np_min_NegInf:
  assumes "NaN \<notin> set xs" "NegInf \<in> set xs"
  shows "np_min xs = Inr NegInf"
proof (cases xs)
  case Nil
  with assms show ?thesis by simp
next
  case (Cons x ys)
  then have "fold (\<lambda>b a. np_minimum a b) ys x = NegInf"
    using assms by (intro fold_np_minimum_has_NegInf) auto
  with Cons show ?thesis by (simp add: np_min_def)
qed

lemma py_min_NegInf: "py_min NegInf old = NegInf"
  by (simp add: py_min_def not_fl_lt_NegInf)

lemma fl_sub_NegInf: "\<not> is_finite (fl_sub hi NegInf)"
  by (cases hi) (simp_all add: fl_sub_def)

text \<open>
  C6, as stated: a magnitude bin at or below 0 is converted to a finite decibel value,
  and no value that is not finite reaches the auto-scaled bounds. It fails on a silent
  read: both bins of the spectrum are 0, both decibel values are \<open>-inf\<close>, and \<open>-inf\<close>
  becomes both bounds, with the range \<open>nan\<close>.
\<close>

theorem silent_frame_is_minus_infinity:
  "spectrum flat_taper auto_model silence = Inr (auto_model, [0, 0])
   \<and> get_data flat_taper auto_model silence
       = Inr (auto_model\<lparr>min_intensity := Some NegInf, max_intensity := Some NegInf,
                           range_intensity := Some NaN\<rparr>, [NegInf, NegInf])"
  by (simp add: spectrum_silence get_data_silence)

text \<open>
  C6, amended: the magnitudes are never negative, and for every frame whose spectrum has
  a bin equal to 0 the conversion \<open>20.0*np.log10\<close> gives \<open>-inf\<close> for that bin: no floor
  is applied. When the minimum is auto-scaled, \<open>-inf\<close> becomes \<open>min_intensity\<close> and the
  range is not finite.
\<close>

theorem zero_bin_is_minus_infinity:
  assumes "spectrum tp m samples = Inr (m2, mags)" "i < length mags" "mags ! i \<le> 0"
    and "get_data tp m samples = Inr (m3, frame)"
  shows "frame ! i = NegInf
         \<and> (min_auto_scale m \<longrightarrow>
              min_intensity m3 = Some NegInf
              \<and> (\<exists>r. range_intensity m3 = Some r \<and> \<not> is_finite r))"
proof -
  from spectrum_result[OF assms(1)]
  have nn: "\<forall>x\<in>set mags. 0 \<le> x"
    and m2: "m2 = m \<or> m2 = m\<lparr>zoom_fac := get_sample_rate m\<rparr>" by auto
  have z: "mags ! i = 0" using nn assms(2,3) by (auto simp: dual_order.antisym)
  from assms(1,4) have fr: "frame = to_decibels mags"
    and ui: "update_intensity m2 frame = Inr m3"
    by (auto simp: get_data_def split: sum.splits)
  have fi: "frame ! i = NegInf"
    using z assms(2) by (simp add: fr to_decibels_def np_log10_def)
  have "min_intensity m3 = Some NegInf \<and> (\<exists>r. range_intensity m3 = Some r \<and> \<not> is_finite r)"
    if a: "min_auto_scale m"
  proof -
    have a2: "min_auto_scale m2" using a m2 by auto
    have "NegInf \<in> set frame" using fi assms(2) fr
      by (metis length_map nth_mem to_decibels_def)
    moreover have "NaN \<notin> set frame" using to_decibels_no_nan[OF nn] fr by simp
    ultimately have mn: "np_min frame = Inr NegInf" by (rule np_min_NegInf[rotated])
    from ui obtain ma mb where
      s1: "update_min m2 frame = Inr ma" and s2: "update_max ma frame = Inr mb"
      and s3: "update_range mb = Inr m3"
      by (auto simp: update_intensity_def split: sum.splits)
    have ma: "min_intensity ma = Some NegInf"
      using s1 a2 mn by (auto simp: update_min_def py_min_NegInf split: option.splits)
    have mb: "min_intensity mb = Some NegInf"
      using s2 ma by (auto simp: update_max_def split: if_splits sum.splits)
    show ?thesis
      using s3 mb by (auto simp: update_range_def fl_sub_NegInf split: option.splits)
  qed
  with fi show ?thesis by simp
qed

theorem zero_bin_is_minus_infinity_witness:
  "spectrum flat_taper auto_model silence = Inr (auto_model, [0, 0])
   \<and> (0::nat) < length [0::real, 0] \<and> [0::real, 0] ! 0 \<le> 0 \<and> min_auto_scale auto_model
   \<and> get_data flat_taper auto_model silence
       = Inr (auto_model\<lparr>min_intensity := Some NegInf, max_intensity := Some NegInf,
                           range_intensity := Some NaN\<rparr>, [NegInf, NegInf])
   \<and> [NegInf, NegInf] ! 0 = NegInf
   \<and> min_intensity (auto_model\<lparr>min_intensity := Some NegInf, max_intensity := Some NegInf,
                           range_intensity := Some NaN\<rparr>) = Some NegInf"
proof -
  have h1: "spectrum flat_taper auto_model silence = Inr (auto_model, [0, 0])"
    by (rule spectrum_silence)
  have h2: "(0::nat) < length [0::real, 0]" "[0::real, 0] ! 0 \<le> 0" by simp_all
  have h3: "get_data flat_taper auto_model silence
       = Inr (auto_model\<lparr>min_intensity := Some NegInf, max_intensity := Some NegInf,
                           range_intensity := Some NaN\<rparr>, [NegInf, NegInf])"
    by (rule get_data_silence)
  have h4: "min_auto_scale auto_model" by (simp add: auto_model_eq)
  from zero_bin_is_minus_infinity[OF h1 h2 h3] h1 h2 h3 h4 show ?thesis by simp
qed

section \<open>The auto-scaled bounds over a run of frames\<close>

lemma np_minimum_finite: "np_minimum (Fin a) (Fin b) = Fin (min a b)"
  by (auto simp: np_minimum_def)

lemma np_maximum_finite: "np_maximum (Fin a) (Fin b) = Fin (max a b)"
  by (auto simp: np_maximum_def)

lemma is_finite_iff: "is_finite v \<longleftrightarrow> (\<exists>a. v = Fin a)"
  by (cases v) simp_all

lemma fold_np_minimum_finite:
  "\<forall>v\<in>set ys. is_finite v \<Longrightarrow> \<exists>b. fold (\<lambda>b a. np_minimum a b) ys (Fin a) = Fin b"
proof (induction ys arbitrary: a)
  case Nil
  then show ?case by simp
next
  case (Cons y ys)
  then obtain c where "y = Fin c" by (auto simp: is_finite_iff)
  with Cons show ?case by (simp add: np_minimum_finite)
qed

lemma fold_np_maximum_finite:
  "\<forall>v\<in>set ys. is_finite v \<Longrightarrow> \<exists>b. fold (\<lambda>b a. np_maximum a b) ys (Fin a) = Fin b"
proof (induction ys arbitrary: a)
  case Nil
  then show ?case by simp
next
  case (Cons y ys)
  then obtain c where "y = Fin c" by (auto simp: is_finite_iff)
  with Cons show ?case by (simp add: np_maximum_finite)
qed

lemma np_min_finite:
  assumes "\<forall>v\<in>set xs. is_finite v" "np_min xs = Inr lo"
  shows "\<exists>a. lo = Fin a"
proof (cases xs)
  case Nil
  with assms show ?thesis by (simp add: np_min_def)
next
  case (Cons x ys)
  with assms obtain c where "x = Fin c" by (auto simp: is_finite_iff)
  with Cons assms fold_np_minimum_finite[of ys c] show ?thesis
    by (auto simp: np_min_def)
qed

lemma np_max_finite:
  assumes "\<forall>v\<in>set xs. is_finite v" "np_max xs = Inr hi"
  shows "\<exists>a. hi = Fin a"
proof (cases xs)
  case Nil
  with assms show ?thesis by (simp add: np_max_def)
next
  case (Cons x ys)
  with assms obtain c where "x = Fin c" by (auto simp: is_finite_iff)
  with Cons assms fold_np_maximum_finite[of ys c] show ?thesis
    by (auto simp: np_max_def)
qed

lemma update_min_widens:
  assumes "update_min m frame = Inr m1" "\<forall>v\<in>set frame. is_finite v"
    and "min_auto_scale m" "min_intensity m = Some (Fin lo)"
  shows "\<exists>lo'. m1 = m\<lparr>min_intensity := Some (Fin lo')\<rparr> \<and> lo' \<le> lo"
proof -
  from assms(1,3) obtain v where v: "np_min frame = Inr v"
    and m1: "m1 = m\<lparr>min_intensity := Some (py_min v (Fin lo))\<rparr>"
    using assms(4) by (auto simp: update_min_def split: sum.splits)
  from np_min_finite[OF assms(2) v] obtain a where "v = Fin a" by blast
  then show ?thesis using m1 by (auto simp: py_min_def)
qed

lemma update_max_widens:
  assumes "update_max m frame = Inr m1" "\<forall>v\<in>set frame. is_finite v"
    and "max_auto_scale m" "max_intensity m = Some (Fin hi)"
  shows "\<exists>hi'. m1 = m\<lparr>max_intensity := Some (Fin hi')\<rparr> \<and> hi \<le> hi'"
proof -
  from assms(1,3) obtain v where v: "np_max frame = Inr v"
    and m1: "m1 = m\<lparr>max_intensity := Some (py_max v (Fin hi))\<rparr>"
    using assms(4) by (auto simp: update_max_def split: sum.splits)
  from np_max_finite[OF assms(2) v] obtain a where "v = Fin a" by blast
  then show ?thesis using m1 by (auto simp: py_max_def)
qed

lemma get_data_widens:
  assumes "get_data tp m samples = Inr (m', frame)" "\<forall>v\<in>set frame. is_finite v"
    and "min_auto_scale m" "max_auto_scale m"
    and "min_intensity m = Some (Fin lo)" "max_intensity m = Some (Fin hi)"
  shows "min_auto_scale m' \<and> max_auto_scale m'
         \<and> (\<exists>lo' hi'. min_intensity m' = Some (Fin lo') \<and> max_intensity m' = Some (Fin hi')
               \<and> lo' \<le> lo \<and> hi \<le> hi')"
proof -
  from assms(1) obtain m2 mags where sp: "spectrum tp m samples = Inr (m2, mags)"
    and fr: "frame = to_decibels mags" and ui: "update_intensity m2 frame = Inr m'"
    by (auto simp: get_data_def split: sum.splits)
  from spectrum_result[OF sp]
  have m2: "m2 = m \<or> m2 = m\<lparr>zoom_fac := get_sample_rate m\<rparr>" by simp
  then have p2: "min_auto_scale m2" "max_auto_scale m2"
    "min_intensity m2 = Some (Fin lo)" "max_intensity m2 = Some (Fin hi)"
    using assms(3-6) by auto
  from ui obtain ma mb where
    s1: "update_min m2 frame = Inr ma" and s2: "update_max ma frame = Inr mb"
    and s3: "update_range mb = Inr m'"
    by (auto simp: update_intensity_def split: sum.splits)
  from update_min_widens[OF s1 assms(2) p2(1) p2(3)] obtain lo'
    where ma: "ma = m2\<lparr>min_intensity := Some (Fin lo')\<rparr>" "lo' \<le> lo" by blast
  have pa: "max_auto_scale ma" "max_intensity ma = Some (Fin hi)" using ma p2 by simp_all
  from update_max_widens[OF s2 assms(2) pa] obtain hi'
    where mb: "mb = ma\<lparr>max_intensity := Some (Fin hi')\<rparr>" "hi \<le> hi'" by blast
  from s3 have "m' = mb\<lparr>range_intensity := Some (fl_sub (Fin hi') (Fin lo'))\<rparr>"
    using ma mb by (simp add: update_range_def)
  then show ?thesis using ma mb p2 by simp
qed

lemma seen_model_eq:
  "seen_model = two_pixel_model (Some (Fin 0)) (Some (Fin 0)) (Some (Fin 0)) (Ave 3)"
  by (simp add: seen_model_def auto_model_eq two_pixel_model_def default_model_def)

lemma take_samples_two_pixel:
  "take_samples (two_pixel_model lo hi r k) (c # replicate 8191 0)
   = Inr (two_pixel_model lo hi r k, 9, [c,0,0,0,0,0,0,0,0,0,0])"
  by (simp add: take_samples_def two_pixel_model_def default_model_def SDR_SAMPLE_SIZE_def
      py_slice_def py_bound_def py_int_def Let_def)
    (simp add: eval_nat_numeral)

lemma choose_window_two_pixel:
  "choose_window flat_taper (two_pixel_model lo hi r k) 9 = Coeffs [1,1,1,1,1,1,1,1,1,1,1]"
  by (simp add: choose_window_def two_pixel_model_def default_model_def signal_window_def
      SDR_SAMPLE_SIZE_def py_slice_def py_bound_def Let_def take_map)
    (simp add: eval_nat_numeral flat_taper_def)

lemma shifted_magnitudes_two_pixel:
  "shifted_magnitudes (two_pixel_model lo hi r k) [c,0,0,0,0,0,0,0,0,0,0]
     (Coeffs [1,1,1,1,1,1,1,1,1,1,1])
   = Inr [cmod c, cmod c, cmod c, cmod c, cmod c, cmod c, cmod c, cmod c, cmod c]"
  by (simp add: shifted_magnitudes_def np_multiply_def fft_def py_slice_def py_bound_def
      fftshift_def two_pixel_model_def default_model_def Let_def)

lemma truncate_freqs_two_pixel:
  "truncate_freqs (two_pixel_model lo hi r k) [x,x,x,x,x,x,x,x,x]
   = Inr (two_pixel_model lo hi r k, [x,x])"
  by (simp add: truncate_freqs_def get_freq_step_def crop_offsets_def py_int_def
      py_slice_def py_bound_def two_pixel_model_def default_model_def Let_def)

lemma spectrum_two_pixel:
  "spectrum flat_taper (two_pixel_model lo hi r k) (c # replicate 8191 0)
   = Inr (two_pixel_model lo hi r k, [cmod c, cmod c])"
  by (simp add: spectrum_def take_samples_two_pixel choose_window_two_pixel
      shifted_magnitudes_two_pixel truncate_freqs_two_pixel)

lemma get_data_two_pixel_impulse:
  "get_data flat_taper (two_pixel_model (Some (Fin 0)) (Some (Fin hi)) r k) impulse
   = Inr (two_pixel_model (Some (Fin 0)) (Some (Fin (max 0 hi))) (Some (Fin (max 0 hi))) k,
          [Fin 0, Fin 0])"
  unfolding get_data_def impulse_def spectrum_two_pixel
  by (simp add: to_decibels_def np_log10_def update_intensity_def update_min_def
      update_max_def update_range_def two_pixel_model_def default_model_def np_min_def
      np_max_def np_minimum_def np_maximum_def py_min_def py_max_def fl_sub_def max_def)

lemma get_data_two_pixel_loud:
  "get_data flat_taper (two_pixel_model (Some (Fin 0)) (Some (Fin 0)) r k) loud
   = Inr (two_pixel_model (Some (Fin 0)) (Some (Fin 20)) (Some (Fin 20)) k,
          [Fin 20, Fin 20])"
  unfolding get_data_def loud_def spectrum_two_pixel
  by (simp add: to_decibels_def np_log10_def update_intensity_def update_min_def
      update_max_def update_range_def two_pixel_model_def default_model_def np_min_def
      np_max_def np_minimum_def np_maximum_def py_min_def py_max_def fl_sub_def)

lemma get_data_seen_model_impulse:
  "get_data flat_taper seen_model impulse = Inr (seen_model, [Fin 0, Fin 0])"
  unfolding seen_model_eq by (simp add: get_data_two_pixel_impulse)

lemma get_data_seen_model_loud:
  "get_data flat_taper seen_model loud
   = Inr (seen_model\<lparr>max_intensity := Some (Fin 20), range_intensity := Some (Fin 20)\<rparr>,
          [Fin 20, Fin 20])"
  unfolding seen_model_eq
  by (simp add: get_data_two_pixel_loud) (simp add: two_pixel_model_def)

lemma get_frames_seen_model:
  "get_frames flat_taper seen_model [impulse, loud]
   = Inr (seen_model\<lparr>max_intensity := Some (Fin 20), range_intensity := Some (Fin 20)\<rparr>,
          [[Fin 0, Fin 0], [Fin 20, Fin 20]])"
  by (simp add: get_data_seen_model_impulse get_data_seen_model_loud)

text \<open>
  C9: over any run of frames with no reset in between, with both bounds auto-scaled and
  every value of every frame finite, \<open>min_intensity\<close> does not increase and
  \<open>max_intensity\<close> does not decrease: from resolved bounds \<open>lo\<close> and \<open>hi\<close>, the bounds
  after the run are \<open>lo'\<close> and \<open>hi'\<close> with \<open>lo' \<le> lo\<close> and \<open>hi \<le> hi'\<close>.
\<close>

theorem auto_scale_bounds_widen:
  assumes "get_frames tp m reads = Inr (m', frames)"
    and "\<forall>frame\<in>set frames. \<forall>v\<in>set frame. is_finite v"
    and "min_auto_scale m" "max_auto_scale m"
    and "min_intensity m = Some (Fin lo)" "max_intensity m = Some (Fin hi)"
  shows "\<exists>lo' hi'. min_intensity m' = Some (Fin lo') \<and> max_intensity m' = Some (Fin hi')
           \<and> lo' \<le> lo \<and> hi \<le> hi'"
  using assms
proof (induction reads arbitrary: m frames lo hi)
  case Nil
  then show ?case by simp
next
  case (Cons samples reads)
  from Cons.prems(1) obtain m1 frame rest where
    g: "get_data tp m samples = Inr (m1, frame)"
    and r: "get_frames tp m1 reads = Inr (m', rest)" and f: "frames = frame # rest"
    by (auto split: sum.splits)
  have fin: "\<forall>v\<in>set frame. is_finite v" "\<forall>frame\<in>set rest. \<forall>v\<in>set frame. is_finite v"
    using Cons.prems(2) f by simp_all
  from get_data_widens[OF g fin(1) Cons.prems(3-6)] obtain lo1 hi1 where
    s: "min_auto_scale m1" "max_auto_scale m1" "min_intensity m1 = Some (Fin lo1)"
      "max_intensity m1 = Some (Fin hi1)" "lo1 \<le> lo" "hi \<le> hi1" by blast
  from Cons.IH[OF r fin(2) s(1-4)] obtain lo' hi' where
    "min_intensity m' = Some (Fin lo')" "max_intensity m' = Some (Fin hi')"
    "lo' \<le> lo1" "hi1 \<le> hi'" by blast
  with s(5,6) show ?case by auto
qed

theorem auto_scale_bounds_widen_witness:
  "get_frames flat_taper seen_model [impulse, loud]
     = Inr (seen_model\<lparr>max_intensity := Some (Fin 20), range_intensity := Some (Fin 20)\<rparr>,
            [[Fin 0, Fin 0], [Fin 20, Fin 20]])
   \<and> is_finite (Fin 0) \<and> is_finite (Fin 20)
   \<and> min_auto_scale seen_model \<and> max_auto_scale seen_model
   \<and> min_intensity seen_model = Some (Fin 0) \<and> max_intensity seen_model = Some (Fin 0)
   \<and> (\<exists>lo' hi'.
        min_intensity
          (seen_model\<lparr>max_intensity := Some (Fin 20), range_intensity := Some (Fin 20)\<rparr>)
          = Some (Fin lo')
        \<and> max_intensity
            (seen_model\<lparr>max_intensity := Some (Fin 20), range_intensity := Some (Fin 20)\<rparr>)
            = Some (Fin hi')
        \<and> lo' \<le> 0 \<and> 0 \<le> hi')"
proof -
  have h1: "get_frames flat_taper seen_model [impulse, loud]
     = Inr (seen_model\<lparr>max_intensity := Some (Fin 20), range_intensity := Some (Fin 20)\<rparr>,
            [[Fin 0, Fin 0], [Fin 20, Fin 20]])"
    by (rule get_frames_seen_model)
  have h2: "\<forall>frame\<in>set [[Fin 0, Fin 0], [Fin 20, Fin 20]]. \<forall>v\<in>set frame. is_finite v"
    by simp
  have h3: "min_auto_scale seen_model" "max_auto_scale seen_model"
    "min_intensity seen_model = Some (Fin 0)" "max_intensity seen_model = Some (Fin 0)"
    by (simp_all add: seen_model_eq two_pixel_model_def)
  from auto_scale_bounds_widen[OF h1 h2 h3] h1 h3 show ?thesis by simp
qed

section \<open>The order of numpy floats and the rows of the history\<close>

lemma fl_lt_trans: "fl_lt a b \<Longrightarrow> fl_lt b c \<Longrightarrow> fl_lt a c"
  by (cases a; cases b; cases c) simp_all

lemma fl_lt_total: "a \<noteq> NaN \<Longrightarrow> b \<noteq> NaN \<Longrightarrow> \<not> fl_lt a b \<Longrightarrow> \<not> fl_lt b a \<Longrightarrow> a = b"
  by (cases a; cases b) simp_all

lemma fl_lt_irrefl: "\<not> fl_lt a a"
  by (cases a) simp_all

lemma np_maximum_no_nan:
  "a \<noteq> NaN \<Longrightarrow> b \<noteq> NaN \<Longrightarrow> np_maximum a b = (if fl_lt a b then b else a)"
  by (simp add: np_maximum_def)

lemma fold_np_maximum_is_max:
  assumes "x \<noteq> NaN" "NaN \<notin> set xs"
  shows "fold (\<lambda>b a. np_maximum a b) xs x \<in> set (x # xs)
         \<and> (\<forall>y\<in>set (x # xs). \<not> fl_lt (fold (\<lambda>b a. np_maximum a b) xs x) y)"
  using assms
proof (induction xs arbitrary: x)
  case Nil
  then show ?case by (simp add: fl_lt_irrefl)
next
  case (Cons y ys)
  let ?a = "np_maximum x y"
  let ?M = "fold (\<lambda>b a. np_maximum a b) ys ?a"
  have y: "y \<noteq> NaN" "NaN \<notin> set ys" using Cons.prems by auto
  have a: "?a = (if fl_lt x y then y else x)"
    using Cons.prems(1) y(1) by (rule np_maximum_no_nan)
  then have an: "?a \<noteq> NaN" using Cons.prems(1) y(1) by auto
  from Cons.IH[OF an y(2)]
  have mem: "?M \<in> set (?a # ys)" and ub: "\<forall>z\<in>set (?a # ys). \<not> fl_lt ?M z" by auto
  have Mn: "?M \<noteq> NaN" using mem an y(2) by auto
  have ua: "\<not> fl_lt ?M ?a" using ub by simp
  have ux: "\<not> fl_lt ?M x"
  proof (cases "fl_lt x y")
    case True
    then show ?thesis using ua a fl_lt_trans[of ?M x y] by auto
  next
    case False
    then show ?thesis using ua a by simp
  qed
  have uy: "\<not> fl_lt ?M y"
  proof (cases "fl_lt x y")
    case True
    then show ?thesis using ua a by simp
  next
    case False
    show ?thesis
    proof
      assume My: "fl_lt ?M y"
      have "\<not> fl_lt ?M x" by (rule ux)
      then have "x = ?M \<or> fl_lt x ?M"
        using fl_lt_total[OF Cons.prems(1) Mn] by auto
      then have "fl_lt x y" using My fl_lt_trans[of x ?M y] by auto
      with False show False by simp
    qed
  qed
  have "?M \<in> set (x # y # ys)" using mem a by auto
  moreover have "\<forall>z\<in>set (x # y # ys). \<not> fl_lt ?M z" using ux uy ub by simp
  ultimately show ?case by simp
qed

lemma py_index_result: "py_index n i = Inr j \<Longrightarrow> j < n"
  by (auto simp: py_index_def split: if_splits)

lemma py_nth_result: "py_nth xs i = Inr x \<Longrightarrow> x \<in> set xs"
  by (auto simp: py_nth_def split: sum.splits dest: py_index_result)

lemma np_copyto_result:
  assumes "np_copyto dst src = Inr r"
  shows "length r = length dst \<and> set r \<subseteq> set src \<and> (length src = length dst \<longrightarrow> r = src)"
proof (cases "length src = length dst")
  case True
  with assms show ?thesis by (simp add: np_copyto_def)
next
  case False
  with assms have r: "length src = 1" "r = replicate (length dst) (hd src)"
    by (auto simp: np_copyto_def split: if_splits)
  then have "hd src \<in> set src" by (cases src) auto
  with r False show ?thesis by auto
qed

lemma copy_into_row_result:
  assumes "copy_into_row g i src = Inr g'"
  shows "\<exists>j r. j < length g \<and> g' = g[j := r] \<and> length r = length (g ! j) \<and> set r \<subseteq> set src
               \<and> (length src = length (g ! j) \<longrightarrow> r = src)
               \<and> (0 \<le> i \<longrightarrow> j = nat i)"
proof -
  from assms obtain j r where j: "py_index (length g) i = Inr j"
    and c: "np_copyto (g ! j) src = Inr r" and g': "g' = g[j := r]"
    by (auto simp: copy_into_row_def split: sum.splits)
  have "0 \<le> i \<longrightarrow> j = nat i" using j by (auto simp: py_index_def split: if_splits)
  with py_index_result[OF j] np_copyto_result[OF c] g' show ?thesis by blast
qed

lemma shift_rows_result:
  assumes "shift_rows idx g = Inr g'" "\<forall>row\<in>set g. length row = n"
  shows "length g' = length g \<and> set g' \<subseteq> set g"
  using assms
proof (induction idx arbitrary: g)
  case Nil
  then show ?case by simp
next
  case (Cons i idx)
  from Cons.prems(1) obtain src g1 where s: "py_nth g i = Inr src"
    and c: "copy_into_row g (i - 1) src = Inr g1" and r: "shift_rows idx g1 = Inr g'"
    by (auto split: sum.splits)
  have src: "src \<in> set g" using py_nth_result[OF s] .
  from copy_into_row_result[OF c] obtain j row where j: "j < length g" "g1 = g[j := row]"
    "length src = length (g ! j) \<longrightarrow> row = src" by blast
  have "length src = length (g ! j)" using src j(1) Cons.prems(2) by simp
  then have g1: "g1 = g[j := src]" using j by simp
  then have sub: "set g1 \<subseteq> set g" using src set_update_subset_insert[of g j src] by auto
  then have "\<forall>row\<in>set g1. length row = n" using Cons.prems(2) by auto
  from Cons.IH[OF r this] have "length g' = length g1" "set g' \<subseteq> set g1" by auto
  then show ?case using g1 sub by auto
qed

lemma update_intensity_keeps:
  assumes "update_intensity m frame = Inr m'"
  shows "peak m' = peak m \<and> fft_ave m' = fft_ave m"
proof -
  from assms obtain ma mb where
    s1: "update_min m frame = Inr ma" and s2: "update_max ma frame = Inr mb"
    and s3: "update_range mb = Inr m'"
    by (auto simp: update_intensity_def split: sum.splits)
  have "peak ma = peak m \<and> fft_ave ma = fft_ave m"
    using s1 by (auto simp: update_min_def split: if_splits sum.splits)
  moreover have "peak mb = peak ma \<and> fft_ave mb = fft_ave ma"
    using s2 by (auto simp: update_max_def split: if_splits sum.splits)
  moreover have "peak m' = peak mb \<and> fft_ave m' = fft_ave mb"
    using s3 by (auto simp: update_range_def split: option.splits)
  ultimately show ?thesis by simp
qed

lemma get_data_result:
  assumes "get_data tp m samples = Inr (m', frame)"
  shows "peak m' = peak m \<and> fft_ave m' = fft_ave m \<and> NaN \<notin> set frame"
proof -
  from assms obtain m2 mags where sp: "spectrum tp m samples = Inr (m2, mags)"
    and fr: "frame = to_decibels mags" and ui: "update_intensity m2 frame = Inr m'"
    by (auto simp: get_data_def split: sum.splits)
  from spectrum_result[OF sp]
  have nn: "\<forall>x\<in>set mags. 0 \<le> x"
    and m2: "m2 = m \<or> m2 = m\<lparr>zoom_fac := get_sample_rate m\<rparr>" by auto
  have "peak m2 = peak m \<and> fft_ave m2 = fft_ave m" using m2 by auto
  with update_intensity_keeps[OF ui] to_decibels_no_nan[OF nn] fr show ?thesis by simp
qed

lemma np_max_axis0_result:
  assumes "np_max_axis0 g = Inr freqs" "\<forall>row\<in>set g. length row = n \<and> NaN \<notin> set row"
    and "i < n"
  shows "length freqs = n \<and> (\<exists>row\<in>set g. freqs ! i = row ! i)
         \<and> (\<forall>row\<in>set g. \<not> fl_lt (freqs ! i) (row ! i))"
proof (cases g)
  case Nil
  with assms(1) show ?thesis by (simp add: np_max_axis0_def)
next
  case (Cons r rs)
  let ?col = "map (\<lambda>x. x ! i) rs"
  let ?M = "fold (\<lambda>b a. np_maximum a b) ?col (r ! i)"
  have len: "length r = n" using assms(2) Cons by simp
  from assms(1) Cons
  have fr: "freqs = map (\<lambda>i. fold (\<lambda>b a. np_maximum a b) (map (\<lambda>x. x ! i) rs) (r ! i))
                      [0..<length r]"
    by (simp add: np_max_axis0_def)
  have fi: "freqs ! i = ?M" using fr len assms(3) by simp
  have x: "r ! i \<noteq> NaN" using assms(2,3) Cons len by (metis list.set_intros(1) nth_mem)
  have c: "NaN \<notin> set ?col"
  proof
    assume "NaN \<in> set ?col"
    then obtain row where "row \<in> set rs" "row ! i = NaN" by auto
    then show False using assms(2,3) Cons by (metis list.set_intros(2) nth_mem)
  qed
  from fold_np_maximum_is_max[OF x c]
  have mem: "?M \<in> set (r ! i # ?col)" and ub: "\<forall>y\<in>set (r ! i # ?col). \<not> fl_lt ?M y"
    by auto
  have "\<exists>row\<in>set g. freqs ! i = row ! i" using mem fi Cons by auto
  moreover have "\<forall>row\<in>set g. \<not> fl_lt (freqs ! i) (row ! i)" using ub fi Cons by auto
  moreover have "length freqs = n" using fr len by simp
  ultimately show ?thesis by simp
qed

lemma reduce_frames_length:
  assumes "reduce_frames pk g = Inr freqs" "\<forall>row\<in>set g. length row = n"
  shows "length freqs = n"
proof (cases g)
  case Nil
  with assms(1) show ?thesis
    by (auto simp: reduce_frames_def np_max_axis0_def np_average_axis0_def split: if_splits)
next
  case (Cons r rs)
  with assms show ?thesis
    by (auto simp: reduce_frames_def np_max_axis0_def np_average_axis0_def split: if_splits)
qed

lemma push_frame_result:
  assumes "push_frame g k freqslast = Inr g2" "\<forall>row\<in>set g. length row = n"
  shows "\<exists>j r. j < length g \<and> length g2 = length g \<and> length r = n \<and> set r \<subseteq> set freqslast
           \<and> (length freqslast = n \<longrightarrow> r = freqslast) \<and> (0 \<le> k \<longrightarrow> j = nat k)
           \<and> g2 ! j = r \<and> (\<forall>j'<length g. j' \<noteq> j \<longrightarrow> g2 ! j' \<in> set g)
           \<and> set g2 \<subseteq> insert r (set g)"
proof -
  from assms(1) obtain g1 where s: "shift_rows [1..k] g = Inr g1"
    and c: "copy_into_row g1 k freqslast = Inr g2"
    by (auto simp: push_frame_def split: sum.splits)
  from shift_rows_result[OF s assms(2)]
  have g1: "length g1 = length g" "set g1 \<subseteq> set g" by auto
  from copy_into_row_result[OF c] obtain j r where j: "j < length g1" "g2 = g1[j := r]"
    "length r = length (g1 ! j)" "set r \<subseteq> set freqslast"
    "length freqslast = length (g1 ! j) \<longrightarrow> r = freqslast" "0 \<le> k \<longrightarrow> j = nat k" by blast
  have n: "length (g1 ! j) = n" using j(1) g1(2) assms(2) by (meson nth_mem subsetD)
  have o: "\<forall>j'<length g. j' \<noteq> j \<longrightarrow> g2 ! j' \<in> set g"
    using j(2) g1 by (metis nth_list_update_neq nth_mem subsetD)
  have sub: "set g2 \<subseteq> insert r (set g)"
    using j(2) g1(2) set_update_subset_insert[of g1 j r] by auto
  have at: "g2 ! j = r" using j(1,2) by simp
  have "j < length g \<and> length g2 = length g \<and> length r = n \<and> set r \<subseteq> set freqslast
           \<and> (length freqslast = n \<longrightarrow> r = freqslast) \<and> (0 \<le> k \<longrightarrow> j = nat k)
           \<and> g2 ! j = r \<and> (\<forall>j'<length g. j' \<noteq> j \<longrightarrow> g2 ! j' \<in> set g)
           \<and> set g2 \<subseteq> insert r (set g)"
    using j(1,2,3,4,5,6) g1(1) n o sub at by simp
  then show ?thesis by blast
qed

lemma refresh_history_rebuilds:
  assumes "refresh_history tp v m1 k freqslast samples2 = Inr (m2, v1)"
    and "length (freqsfirst v) \<noteq> length freqslast \<or> checkfirst v \<noteq> k + 1"
  shows "\<exists>first. get_data tp m1 samples2 = Inr (m2, first) \<and> 0 \<le> k + 1
           \<and> v1 = v\<lparr>checkfirst := k + 1, freqsfirst := first,
                     freqsinit := replicate (nat (k + 1)) first,
                     freqgrabs := replicate (nat (k + 1)) first\<rparr>"
  using assms
  by (auto simp: refresh_history_def np_tile_def split: sum.splits if_splits)

lemma refresh_history_result:
  assumes "refresh_history tp v m1 k freqslast samples2 = Inr (m2, v1)"
    and "length (freqgrabs v) = nat (checkfirst v)"
    and "\<forall>row\<in>set (freqgrabs v). length row = length (freqsfirst v) \<and> NaN \<notin> set row"
  shows "length (freqgrabs v1) = nat (k + 1) \<and> checkfirst v1 = k + 1 \<and> peak m2 = peak m1
         \<and> (\<forall>row\<in>set (freqgrabs v1). length row = length (freqsfirst v1) \<and> NaN \<notin> set row)"
proof (cases "length (freqsfirst v) \<noteq> length freqslast \<or> checkfirst v \<noteq> k + 1")
  case True
  from refresh_history_rebuilds[OF assms(1) True] obtain first where
    g: "get_data tp m1 samples2 = Inr (m2, first)"
    and v1: "v1 = v\<lparr>checkfirst := k + 1, freqsfirst := first,
                     freqsinit := replicate (nat (k + 1)) first,
                     freqgrabs := replicate (nat (k + 1)) first\<rparr>" by blast
  from get_data_result[OF g] v1 show ?thesis by auto
next
  case False
  then have "m2 = m1" "v1 = v" using assms(1) by (auto simp: refresh_history_def)
  with False assms(2,3) show ?thesis by auto
qed

lemma render_spectrogram_steps:
  assumes "render_spectrogram tp v m samples samples2 = Inr (v', m', freqs)"
    and "fft_ave m = Ave k"
  shows "\<exists>m1 freqslast v1 g2.
           get_data tp m samples = Inr (m1, freqslast)
           \<and> refresh_history tp v m1 k freqslast samples2 = Inr (m', v1)
           \<and> push_frame (freqgrabs v1) k freqslast = Inr g2
           \<and> reduce_frames (peak m') g2 = Inr freqs
           \<and> v' = v1\<lparr>freqgrabs := g2\<rparr>"
proof -
  from assms(1) obtain m1 freqslast where g: "get_data tp m samples = Inr (m1, freqslast)"
    by (auto simp: render_spectrogram_def split: sum.splits)
  from get_data_result[OF g] assms(2) have k: "fft_ave m1 = Ave k" by simp
  show ?thesis
    using assms(1) g k
    by (auto simp: render_spectrogram_def split: sum.splits)
qed

lemma InstantSpectrogram_init_invariant:
  assumes "InstantSpectrogram_init tp m samples = Inr (m', v)"
  shows "length (freqgrabs v) = nat (checkfirst v)
         \<and> (\<forall>row\<in>set (freqgrabs v). length row = length (freqsfirst v) \<and> NaN \<notin> set row)"
proof -
  from assms obtain k first where g: "get_data tp m samples = Inr (m', first)"
    and v: "v = \<lparr>checkfirst = k + 1, freqsfirst = first,
                 freqsinit = replicate (nat (k + 1)) first,
                 freqgrabs = replicate (nat (k + 1)) first\<rparr>"
    by (auto simp: InstantSpectrogram_init_def np_tile_def
        split: ave.splits sum.splits if_splits)
  from get_data_result[OF g] v show ?thesis by auto
qed

lemma render_spectrogram_invariant:
  assumes "render_spectrogram tp v m samples samples2 = Inr (v', m', freqs)"
    and "fft_ave m = Ave k"
    and "length (freqgrabs v) = nat (checkfirst v)"
    and "\<forall>row\<in>set (freqgrabs v). length row = length (freqsfirst v) \<and> NaN \<notin> set row"
  shows "length (freqgrabs v') = nat (checkfirst v')
         \<and> (\<forall>row\<in>set (freqgrabs v'). length row = length (freqsfirst v') \<and> NaN \<notin> set row)"
proof -
  from render_spectrogram_steps[OF assms(1,2)] obtain m1 freqslast v1 g2 where
    g: "get_data tp m samples = Inr (m1, freqslast)"
    and rh: "refresh_history tp v m1 k freqslast samples2 = Inr (m', v1)"
    and pf: "push_frame (freqgrabs v1) k freqslast = Inr g2"
    and v': "v' = v1\<lparr>freqgrabs := g2\<rparr>" by blast
  from get_data_result[OF g] have nl: "NaN \<notin> set freqslast" by simp
  let ?n = "length (freqsfirst v1)"
  from refresh_history_result[OF rh assms(3,4)]
  have l1: "length (freqgrabs v1) = nat (k + 1)" "checkfirst v1 = k + 1"
    and r1: "\<forall>row\<in>set (freqgrabs v1). length row = ?n \<and> NaN \<notin> set row" by auto
  from r1 have r1': "\<forall>row\<in>set (freqgrabs v1). length row = ?n" by simp
  from push_frame_result[OF pf r1'] obtain r where
    l2: "length g2 = length (freqgrabs v1)" and r: "length r = ?n" "set r \<subseteq> set freqslast"
    and sub: "set g2 \<subseteq> insert r (set (freqgrabs v1))" by blast
  have "\<forall>row\<in>set g2. length row = ?n \<and> NaN \<notin> set row"
    using sub r r1 nl by auto
  with l1 l2 v' show ?thesis by simp
qed

lemma shift_rows_returns:
  assumes "\<forall>row\<in>set g. length row = n" "\<forall>i\<in>set idx. 1 \<le> i \<and> i < int (length g)"
  shows "\<exists>g'. shift_rows idx g = Inr g'"
  using assms
proof (induction idx arbitrary: g)
  case Nil
  then show ?case by simp
next
  case (Cons i idx)
  then have i: "1 \<le> i" "i < int (length g)" by auto
  let ?src = "g ! nat i"
  let ?g1 = "g[nat (i - 1) := ?src]"
  have a: "py_nth g i = Inr ?src" using i by (simp add: py_nth_def py_index_def)
  have n1: "nat i < length g" "nat (i - 1) < length g" using i by auto
  have "length ?src = n" "length (g ! nat (i - 1)) = n"
    using n1 Cons.prems(1) by (simp_all only: nth_mem)
  then have "length ?src = length (g ! nat (i - 1))" by simp
  then have b: "copy_into_row g (i - 1) ?src = Inr ?g1"
    using i by (simp add: copy_into_row_def py_index_def np_copyto_def)
  have "set ?g1 \<subseteq> insert ?src (set g)" by (rule set_update_subset_insert)
  moreover have "?src \<in> set g" using n1 by simp
  ultimately have r: "\<forall>row\<in>set ?g1. length row = n" using Cons.prems(1) by auto
  have "\<forall>i\<in>set idx. 1 \<le> i \<and> i < int (length ?g1)" using Cons.prems(2) by simp
  from Cons.IH[OF r this] a b show ?case by simp
qed

lemma render_spectrogram_rebuild_returns:
  assumes "get_data tp m samples = Inr (m1, freqslast)" "fft_ave m = Ave k" "0 \<le> k"
    and "length (freqsfirst v) \<noteq> length freqslast \<or> checkfirst v \<noteq> k + 1"
    and "get_data tp m1 samples2 = Inr (m2, first)" "length freqslast = length first"
    and "peak m = Some b"
  shows "\<exists>v' freqs. render_spectrogram tp v m samples samples2 = Inr (v', m2, freqs)"
proof -
  let ?g = "replicate (nat (k + 1)) first"
  let ?v1 = "v\<lparr>checkfirst := k + 1, freqsfirst := first, freqsinit := ?g, freqgrabs := ?g\<rparr>"
  from get_data_result[OF assms(1)] assms(2,7)
  have k1: "fft_ave m1 = Ave k" and p1: "peak m1 = Some b" by auto
  from get_data_result[OF assms(5)] p1 have p2: "peak m2 = Some b" by simp
  have rh: "refresh_history tp v m1 k freqslast samples2 = Inr (m2, ?v1)"
    using assms(3,4,5) by (simp add: refresh_history_def np_tile_def)
  have "\<forall>i\<in>set [1..k]. 1 \<le> i \<and> i < int (length ?g)" using assms(3) by auto
  from shift_rows_returns[OF _ this, of "length first"] obtain g1
    where s: "shift_rows [1..k] ?g = Inr g1" by auto
  from shift_rows_result[OF s, of "length first"]
  have g1: "length g1 = length ?g" "set g1 \<subseteq> set ?g" by auto
  have kk: "nat k < length g1" using g1(1) assms(3) by simp
  then have "g1 ! nat k \<in> set ?g" using g1(2) by (meson nth_mem subsetD)
  then have "length (g1 ! nat k) = length freqslast" using assms(6) by simp
  then have c: "copy_into_row g1 k freqslast = Inr (g1[nat k := freqslast])"
    using kk assms(3) by (simp add: copy_into_row_def py_index_def np_copyto_def)
  have pf: "push_frame ?g k freqslast = Inr (g1[nat k := freqslast])"
    using s c by (simp add: push_frame_def)
  have "g1[nat k := freqslast] \<noteq> []" using kk by auto
  then obtain freqs where rf: "reduce_frames (Some b) (g1[nat k := freqslast]) = Inr freqs"
    by (cases "g1[nat k := freqslast]"; cases b)
      (auto simp: reduce_frames_def np_max_axis0_def np_average_axis0_def)
  show ?thesis
    using assms(1) k1 rh pf rf p2 by (simp add: render_spectrogram_def)
qed

lemma auto_model_two_pixel: "auto_model = two_pixel_model None None None (Ave 3)"
  by (simp add: auto_model_eq two_pixel_model_def default_model_def)

lemma InstantSpectrogram_init_auto_model:
  "InstantSpectrogram_init flat_taper auto_model impulse = Inr (seen_model, first_view)"
  unfolding InstantSpectrogram_init_def get_data_auto_model
  by (simp add: auto_model_two_pixel two_pixel_model_def np_tile_def first_view_def)
    (simp add: eval_nat_numeral)

lemma set_fft_ave_seen_model:
  "set_fft_ave seen_model 5
   = two_pixel_model (Some (Fin 0)) (Some (Fin 0)) (Some (Fin 0)) (Ave 5)"
  by (simp add: set_fft_ave_def seen_model_eq two_pixel_model_def py_int_def)

lemma render_spectrogram_first_view:
  "render_spectrogram flat_taper first_view seen_model loud impulse
   = Inr (first_view\<lparr>freqgrabs := [[Fin 0, Fin 0], [Fin 0, Fin 0], [Fin 0, Fin 0],
                                     [Fin 20, Fin 20]]\<rparr>,
          two_pixel_model (Some (Fin 0)) (Some (Fin 20)) (Some (Fin 20)) (Ave 3),
          [Fin 20, Fin 20])"
  unfolding render_spectrogram_def seen_model_eq get_data_two_pixel_loud
  by (simp add: two_pixel_model_def refresh_history_def first_view_def push_frame_def
      upto_rec1 py_nth_def py_index_def copy_into_row_def np_copyto_def reduce_frames_def
      np_max_axis0_def np_maximum_def default_model_def)

lemma render_spectrogram_rebuilt:
  "render_spectrogram flat_taper first_view (set_fft_ave seen_model 5) loud impulse
   = Inr (\<lparr>checkfirst = 6, freqsfirst = [Fin 0, Fin 0],
           freqsinit = [[Fin 0, Fin 0], [Fin 0, Fin 0], [Fin 0, Fin 0], [Fin 0, Fin 0],
                        [Fin 0, Fin 0], [Fin 0, Fin 0]],
           freqgrabs = [[Fin 0, Fin 0], [Fin 0, Fin 0], [Fin 0, Fin 0], [Fin 0, Fin 0],
                        [Fin 0, Fin 0], [Fin 20, Fin 20]]\<rparr>,
          two_pixel_model (Some (Fin 0)) (Some (Fin 20)) (Some (Fin 20)) (Ave 5),
          [Fin 20, Fin 20])"
proof -
  have k: "fft_ave (two_pixel_model lo hi r (Ave 5)) = Ave 5"
    "peak (two_pixel_model lo hi r (Ave 5)) = Some True" for lo hi r
    by (simp_all add: two_pixel_model_def default_model_def)
  have rh: "refresh_history flat_taper first_view
              (two_pixel_model (Some (Fin 0)) (Some (Fin 20)) (Some (Fin 20)) (Ave 5)) 5
              [Fin 20, Fin 20] impulse
            = Inr (two_pixel_model (Some (Fin 0)) (Some (Fin 20)) (Some (Fin 20)) (Ave 5),
                   \<lparr>checkfirst = 6, freqsfirst = [Fin 0, Fin 0],
                    freqsinit = replicate 6 [Fin 0, Fin 0],
                    freqgrabs = replicate 6 [Fin 0, Fin 0]\<rparr>)"
    unfolding refresh_history_def get_data_two_pixel_impulse
    by (simp add: first_view_def np_tile_def)
  show ?thesis
    unfolding render_spectrogram_def set_fft_ave_seen_model get_data_two_pixel_loud
    by (simp add: k rh)
      (simp add: k eval_nat_numeral push_frame_def upto_rec1 py_nth_def py_index_def
        copy_into_row_def np_copyto_def reduce_frames_def np_max_axis0_def np_maximum_def)
qed

section \<open>The frame history: peak hold and rebuilding\<close>

text \<open>
  C7: with \<open>peak\<close> equal to \<open>True\<close>, for every bin \<open>i\<close> the reduced value that
  \<open>render_spectrogram\<close> computes is the maximum, at position \<open>i\<close>, over the
  \<open>fft_ave + 1\<close> frames the history holds after the push: it is the value of one of
  the rows there and no row has a greater one. The history the call starts from is an
  array as \<open>__init__\<close> and earlier calls leave it: \<open>checkfirst\<close> rows, each as long as
  \<open>freqsfirst\<close>, no \<open>nan\<close> in them.
\<close>

theorem peak_hold_is_column_maximum:
  assumes "render_spectrogram tp v m samples samples2 = Inr (v', m', freqs)"
    and "peak m = Some True" "fft_ave m = Ave k"
    and "length (freqgrabs v) = nat (checkfirst v)"
    and "\<forall>row\<in>set (freqgrabs v). length row = length (freqsfirst v) \<and> NaN \<notin> set row"
    and "i < length freqs"
  shows "length (freqgrabs v') = nat (k + 1)
         \<and> (\<exists>row\<in>set (freqgrabs v'). freqs ! i = row ! i)
         \<and> (\<forall>row\<in>set (freqgrabs v'). \<not> fl_lt (freqs ! i) (row ! i))"
proof -
  from render_spectrogram_steps[OF assms(1,3)] obtain m1 freqslast v1 g2 where
    g: "get_data tp m samples = Inr (m1, freqslast)"
    and rh: "refresh_history tp v m1 k freqslast samples2 = Inr (m', v1)"
    and pf: "push_frame (freqgrabs v1) k freqslast = Inr g2"
    and rf: "reduce_frames (peak m') g2 = Inr freqs"
    and v': "v' = v1\<lparr>freqgrabs := g2\<rparr>" by blast
  from get_data_result[OF g] have pk1: "peak m1 = peak m" and nl: "NaN \<notin> set freqslast"
    by auto
  let ?n = "length (freqsfirst v1)"
  from refresh_history_result[OF rh assms(4,5)]
  have l1: "length (freqgrabs v1) = nat (k + 1)" and pk2: "peak m' = peak m1"
    and r1: "\<forall>row\<in>set (freqgrabs v1). length row = ?n \<and> NaN \<notin> set row" by auto
  from r1 have r1': "\<forall>row\<in>set (freqgrabs v1). length row = ?n" by simp
  from push_frame_result[OF pf r1'] obtain r where
    l2: "length g2 = length (freqgrabs v1)" and r: "length r = ?n" "set r \<subseteq> set freqslast"
    and sub: "set g2 \<subseteq> insert r (set (freqgrabs v1))" by blast
  have r2: "\<forall>row\<in>set g2. length row = ?n \<and> NaN \<notin> set row"
    using sub r r1 nl by auto
  have mx: "np_max_axis0 g2 = Inr freqs"
    using rf pk2 pk1 assms(2) by (simp add: reduce_frames_def)
  have "length freqs = ?n" using reduce_frames_length[OF rf] r2 by simp
  then have i: "i < ?n" using assms(6) by simp
  from np_max_axis0_result[OF mx r2 i] l2 l1 v' show ?thesis by simp
qed

theorem peak_hold_is_column_maximum_witness:
  "render_spectrogram flat_taper first_view seen_model loud impulse
     = Inr (first_view\<lparr>freqgrabs := [[Fin 0, Fin 0], [Fin 0, Fin 0], [Fin 0, Fin 0],
                                       [Fin 20, Fin 20]]\<rparr>,
            two_pixel_model (Some (Fin 0)) (Some (Fin 20)) (Some (Fin 20)) (Ave 3),
            [Fin 20, Fin 20])
   \<and> peak seen_model = Some True \<and> fft_ave seen_model = Ave 3
   \<and> length (freqgrabs first_view) = nat (checkfirst first_view)
   \<and> (0::nat) < length [Fin 20, Fin 20]
   \<and> length (freqgrabs (first_view\<lparr>freqgrabs := [[Fin 0, Fin 0], [Fin 0, Fin 0],
                                                   [Fin 0, Fin 0], [Fin 20, Fin 20]]\<rparr>))
       = nat (3 + 1)
   \<and> \<not> fl_lt ([Fin 20, Fin 20] ! 0) ([Fin 0, Fin 0] ! 0)
   \<and> \<not> fl_lt ([Fin 20, Fin 20] ! 0) ([Fin 20, Fin 20] ! 0)"
proof -
  have h1: "render_spectrogram flat_taper first_view seen_model loud impulse
     = Inr (first_view\<lparr>freqgrabs := [[Fin 0, Fin 0], [Fin 0, Fin 0], [Fin 0, Fin 0],
                                       [Fin 20, Fin 20]]\<rparr>,
            two_pixel_model (Some (Fin 0)) (Some (Fin 20)) (Some (Fin 20)) (Ave 3),
            [Fin 20, Fin 20])"
    by (rule render_spectrogram_first_view)
  have h2: "peak seen_model = Some True" "fft_ave seen_model = Ave 3"
    by (simp_all add: seen_model_eq two_pixel_model_def default_model_def)
  have h3: "length (freqgrabs first_view) = nat (checkfirst first_view)"
    by (simp add: first_view_def)
  have h4: "\<forall>row\<in>set (freqgrabs first_view).
              length row = length (freqsfirst first_view) \<and> NaN \<notin> set row"
    by (simp add: first_view_def)
  have h5: "(0::nat) < length [Fin 20, Fin 20]" by simp
  from peak_hold_is_column_maximum[OF h1 h2 h3 h4 h5] h1 h2 h3 h5 show ?thesis
    by simp
qed

text \<open>
  C8: when the frame just acquired differs in length from \<open>freqsfirst\<close>, or \<open>checkfirst\<close>
  differs from \<open>fft_ave + 1\<close>, every \<open>render_spectrogram\<close> that returns has rebuilt the
  history before the reduction from a frame that a second \<open>get_data\<close> acquired: all
  \<open>fft_ave + 1\<close> rows are that frame, then the frame acquired first is written into the
  last row, and the reduction is taken over rows of one single length, that of the new
  frame. (\<open>render_spectrogram_rebuild_returns\<close>: the call does return when both
  \<open>get_data\<close> return frames of one length.)
\<close>

theorem changed_history_is_rebuilt:
  assumes "get_data tp m samples = Inr (m1, freqslast)" "fft_ave m = Ave k"
    and "length (freqsfirst v) \<noteq> length freqslast \<or> checkfirst v \<noteq> k + 1"
    and "render_spectrogram tp v m samples samples2 = Inr (v', m', freqs)"
  shows "\<exists>first. get_data tp m1 samples2 = Inr (m', first)
           \<and> freqsfirst v' = first \<and> checkfirst v' = k + 1
           \<and> freqsinit v' = replicate (nat (k + 1)) first
           \<and> length (freqgrabs v') = nat (k + 1)
           \<and> (\<forall>j<nat k. freqgrabs v' ! j = first)
           \<and> (\<forall>row\<in>set (freqgrabs v'). length row = length first)
           \<and> length freqs = length first"
proof -
  from render_spectrogram_steps[OF assms(4,2)] assms(1) obtain v1 g2 where
    rh: "refresh_history tp v m1 k freqslast samples2 = Inr (m', v1)"
    and pf: "push_frame (freqgrabs v1) k freqslast = Inr g2"
    and rf: "reduce_frames (peak m') g2 = Inr freqs"
    and v': "v' = v1\<lparr>freqgrabs := g2\<rparr>" by auto
  from refresh_history_rebuilds[OF rh assms(3)] obtain first where
    g2: "get_data tp m1 samples2 = Inr (m', first)" and k1: "0 \<le> k + 1"
    and v1: "v1 = v\<lparr>checkfirst := k + 1, freqsfirst := first,
                     freqsinit := replicate (nat (k + 1)) first,
                     freqgrabs := replicate (nat (k + 1)) first\<rparr>" by blast
  let ?g = "replicate (nat (k + 1)) first"
  have gv: "freqgrabs v1 = ?g" using v1 by simp
  have rect: "\<forall>row\<in>set ?g. length row = length first" by simp
  from push_frame_result[OF pf[unfolded gv] rect] obtain j r where
    j: "j < length ?g" "length g2 = length ?g" "length r = length first"
      "0 \<le> k \<longrightarrow> j = nat k" "\<forall>j'<length ?g. j' \<noteq> j \<longrightarrow> g2 ! j' \<in> set ?g"
      "set g2 \<subseteq> insert r (set ?g)" by blast
  have k0: "0 \<le> k" using j(1) by auto
  then have jk: "j = nat k" using j(4) by simp
  have before: "\<forall>j'<nat k. g2 ! j' = first"
  proof (intro allI impI)
    fix j' assume "j' < nat k"
    then have "j' < length ?g" "j' \<noteq> j" using jk k0 by auto
    with j(5) have "g2 ! j' \<in> set ?g" by blast
    then show "g2 ! j' = first" by auto
  qed
  have rows: "\<forall>row\<in>set g2. length row = length first" using j(6) j(3) by auto
  have "length freqs = length first" using reduce_frames_length[OF rf rows] .
  with g2 v1 v' j(2) before rows show ?thesis by simp
qed

theorem changed_history_is_rebuilt_witness:
  "get_data flat_taper (set_fft_ave seen_model 5) loud
     = Inr (two_pixel_model (Some (Fin 0)) (Some (Fin 20)) (Some (Fin 20)) (Ave 5),
            [Fin 20, Fin 20])
   \<and> fft_ave (set_fft_ave seen_model 5) = Ave 5 \<and> checkfirst first_view = 4
   \<and> render_spectrogram flat_taper first_view (set_fft_ave seen_model 5) loud impulse
       = Inr (\<lparr>checkfirst = 6, freqsfirst = [Fin 0, Fin 0],
               freqsinit = [[Fin 0, Fin 0], [Fin 0, Fin 0], [Fin 0, Fin 0], [Fin 0, Fin 0],
                            [Fin 0, Fin 0], [Fin 0, Fin 0]],
               freqgrabs = [[Fin 0, Fin 0], [Fin 0, Fin 0], [Fin 0, Fin 0], [Fin 0, Fin 0],
                            [Fin 0, Fin 0], [Fin 20, Fin 20]]\<rparr>,
              two_pixel_model (Some (Fin 0)) (Some (Fin 20)) (Some (Fin 20)) (Ave 5),
              [Fin 20, Fin 20])
   \<and> get_data flat_taper
         (two_pixel_model (Some (Fin 0)) (Some (Fin 20)) (Some (Fin 20)) (Ave 5)) impulse
       = Inr (two_pixel_model (Some (Fin 0)) (Some (Fin 20)) (Some (Fin 20)) (Ave 5),
              [Fin 0, Fin 0])
   \<and> length [Fin 20, Fin 20 :: npfloat] = length [Fin 0, Fin 0 :: npfloat]"
proof -
  have h1: "get_data flat_taper (set_fft_ave seen_model 5) loud
     = Inr (two_pixel_model (Some (Fin 0)) (Some (Fin 20)) (Some (Fin 20)) (Ave 5),
            [Fin 20, Fin 20])"
    unfolding set_fft_ave_seen_model by (rule get_data_two_pixel_loud)
  have h2: "fft_ave (set_fft_ave seen_model 5) = Ave 5"
    by (simp add: set_fft_ave_seen_model two_pixel_model_def)
  have c: "checkfirst first_view = 4" by (simp add: first_view_def)
  then have h3: "length (freqsfirst first_view) \<noteq> length [Fin 20, Fin 20 :: npfloat]
                 \<or> checkfirst first_view \<noteq> 5 + 1" by simp
  have h4: "render_spectrogram flat_taper first_view (set_fft_ave seen_model 5) loud impulse
       = Inr (\<lparr>checkfirst = 6, freqsfirst = [Fin 0, Fin 0],
               freqsinit = [[Fin 0, Fin 0], [Fin 0, Fin 0], [Fin 0, Fin 0], [Fin 0, Fin 0],
                            [Fin 0, Fin 0], [Fin 0, Fin 0]],
               freqgrabs = [[Fin 0, Fin 0], [Fin 0, Fin 0], [Fin 0, Fin 0], [Fin 0, Fin 0],
                            [Fin 0, Fin 0], [Fin 20, Fin 20]]\<rparr>,
              two_pixel_model (Some (Fin 0)) (Some (Fin 20)) (Some (Fin 20)) (Ave 5),
              [Fin 20, Fin 20])"
    by (rule render_spectrogram_rebuilt)
  from changed_history_is_rebuilt[OF h1 h2 h3 h4] h1 h2 c h4 show ?thesis
    by auto
qed

section \<open>The number of values get\_data returns\<close>

text \<open>
  C1: for every valid display width, \<open>get_data\<close> returns exactly \<open>width\<close> values. The
  code does not at width 8191, where the zoom bin count 8191 is below the acquisition
  size 8192: the model built by \<open>__init__\<close> for that width, with the zoom span set to the
  sample rate, returns 8190 values from a read of 8192 samples.
\<close>

theorem get_data_width_8191_returns_8190:
  "\<exists>m' frame. get_data tp (set_zoom_fac (default_model 8191) (23 / 100)) impulse = Inr (m', frame)
     \<and> length frame = 8190"
proof -
  let ?m = "set_zoom_fac (default_model 8191) (23 / 100)"
  have "\<exists>m3 frame. get_data tp ?m impulse = Inr (m3, frame)
           \<and> int (length frame) = min (width ?m) 8190"
    by (rule get_data_returns[where b = True])
      (simp_all add: set_zoom_fac_def default_model_def length_impulse)
  then show ?thesis by (auto simp: set_zoom_fac_def default_model_def)
qed

text \<open>
  C2: whenever the zoom bin count plus two exceeds the acquisition size, the count is
  clamped to the width and \<open>zoom_fac\<close> is reset to the sample rate. The code does not at
  the count 8191: for width 1000, sample rate 1.6383 MHz and zoom span 0.2 MHz the
  count is 8191, it is kept, \<open>zoom_fac\<close> is kept, and the 8192 samples read are all taken.
\<close>

theorem take_samples_zoom_8191_not_clamped:
  "take_samples
     (set_zoom_fac (set_sample_rate (default_model 1000) (16383 / 10000) True) (2 / 10))
     impulse
   = Inr (set_zoom_fac (set_sample_rate (default_model 1000) (16383 / 10000) True) (2 / 10),
          8191, impulse)"
  by (simp add: take_samples_def set_zoom_fac_def set_sample_rate_def default_model_def
      SDR_SAMPLE_SIZE_def py_int_def py_slice_def py_bound_def length_impulse Let_def)

section \<open>The crop to the width of the screen\<close>

text \<open>
  C10: in the crop step of \<open>get_data\<close>, when the shifted spectrum is strictly longer
  than the display width (a pixel count, at least 1) and \<open>swap_iq\<close> is a boolean,
  \<open>lextra\<close> is assigned and at least 0, \<open>rextra\<close> is at least 1, the LO shift moves
  \<open>lextra\<close> only when \<open>extra_samples\<close> exceeds its absolute value, and the slice
  \<open>freqs[lextra:-rextra]\<close> is not empty and has exactly \<open>width\<close> elements. This holds
  for every value of \<open>shiftsweep\<close>.
\<close>

theorem crop_slice_has_width:
  assumes "1 \<le> w" "w < int (length freqs)" "swap = Some b"
  shows "\<exists>lextra rextra.
           crop_offsets (int (length freqs)) w shiftsweep swap = Inr (lextra, rextra)
           \<and> 0 \<le> lextra \<and> 1 \<le> rextra
           \<and> (lextra \<noteq> (int (length freqs) - w) div 2
                \<longrightarrow> \<bar>shiftsweep\<bar> < (int (length freqs) - w) div 2)
           \<and> py_slice lextra (- rextra) freqs \<noteq> []
           \<and> int (length (py_slice lextra (- rextra) freqs)) = w"
proof -
  from crop_offsets_returns[OF assms, of shiftsweep] obtain l r
    where lr: "crop_offsets (int (length freqs)) w shiftsweep swap = Inr (l, r)"
      "0 \<le> l" "1 \<le> r" "l + w + r = int (length freqs)" by blast
  have "int (length (py_slice l (- r) freqs)) = int (length freqs) - l - r"
    using lr assms(1) by (intro length_py_slice_crop) auto
  then have len: "int (length (py_slice l (- r) freqs)) = w" using lr(4) by linarith
  then have ne: "py_slice l (- r) freqs \<noteq> []" using assms(1) by auto
  have sh: "l \<noteq> (int (length freqs) - w) div 2
            \<longrightarrow> \<bar>shiftsweep\<bar> < (int (length freqs) - w) div 2"
    using lr(1) by (auto simp: crop_offsets_def Let_def split: if_splits)
  show ?thesis using lr(1-3) len ne sh by blast
qed

theorem crop_slice_has_width_witness:
  "(1::int) \<le> 320 \<and> 320 < int (length (replicate 1472 (0::real)))
   \<and> (\<exists>lextra rextra.
        crop_offsets (int (length (replicate 1472 (0::real)))) 320 192 (Some True)
          = Inr (lextra, rextra)
        \<and> 0 \<le> lextra \<and> 1 \<le> rextra
        \<and> py_slice lextra (- rextra) (replicate 1472 (0::real)) \<noteq> []
        \<and> int (length (py_slice lextra (- rextra) (replicate 1472 (0::real)))) = 320)"
proof -
  have h1: "(1::int) \<le> 320" by simp
  have h2: "320 < int (length (replicate 1472 (0::real)))" by simp
  from crop_slice_has_width[OF h1 h2, of "Some True" True 192] h1 h2 show ?thesis by blast
qed

section \<open>The setters and the auto-scaled bounds\<close>

lemma intensity_cleared_clear_intensity: "intensity_cleared (clear_intensity m)"
  by (simp add: intensity_cleared_def clear_intensity_def Let_def)

text \<open>
  C3, as stated: after each of \<open>set_center_freq\<close>, \<open>set_sample_rate\<close>, \<open>set_gain\<close>,
  \<open>set_zoom_fac\<close>, \<open>set_min_intensity\<close> and \<open>set_max_intensity\<close> both auto-scaled bounds
  are \<open>None\<close> and the range is cleared. It fails on the model that has seen one frame:
  \<open>set_zoom_fac\<close> and \<open>set_sample_rate\<close> leave both resolved bounds and the range as
  they were, and so does \<open>set_gain\<close> when the device refuses the gain.
\<close>

theorem zoom_and_sample_rate_keep_bounds:
  "min_auto_scale (set_zoom_fac seen_model (1 / 10))
   \<and> min_intensity (set_zoom_fac seen_model (1 / 10)) = Some (Fin 0)
   \<and> max_auto_scale (set_zoom_fac seen_model (1 / 10))
   \<and> max_intensity (set_zoom_fac seen_model (1 / 10)) = Some (Fin 0)
   \<and> range_intensity (set_zoom_fac seen_model (1 / 10)) = Some (Fin 0)
   \<and> min_intensity (set_sample_rate seen_model (25 / 100) True) = Some (Fin 0)
   \<and> max_intensity (set_sample_rate seen_model (25 / 100) True) = Some (Fin 0)
   \<and> range_intensity (set_sample_rate seen_model (25 / 100) True) = Some (Fin 0)
   \<and> set_gain seen_model (Number 10) False = Inr seen_model"
  by (simp add: set_zoom_fac_def set_sample_rate_def set_gain_def seen_model_def auto_model_eq default_model_def)

text \<open>
  C3, amended: immediately after \<open>set_center_freq\<close> (where it returns: \<open>zoom_fac\<close> is
  not 0 and the device accepts the frequency), after \<open>set_gain\<close> accepted by the device,
  after \<open>set_min_intensity\<close> and after \<open>set_max_intensity\<close>, each bound that is in auto
  mode is \<open>None\<close> and the range is \<open>None\<close>; and the setters of \<open>swap_iq\<close>, \<open>peak\<close>,
  \<open>lo_offset\<close>, \<open>fft_ave\<close>, \<open>tune_rate\<close>, \<open>sig_strength\<close>, \<open>filter\<close> and
  \<open>kaiser_beta\<close> keep them so.
\<close>

theorem clearing_setters_clear_intensity:
  "(zoom_fac m \<noteq> 0 \<longrightarrow> (\<exists>m'. set_center_freq m v True = Inr m' \<and> intensity_cleared m'))
   \<and> (\<exists>m'. set_gain m g True = Inr m' \<and> intensity_cleared m')
   \<and> intensity_cleared (set_min_intensity m s)
   \<and> intensity_cleared (set_max_intensity m s)
   \<and> (intensity_cleared m \<longrightarrow>
        intensity_cleared (set_swap_iq m a) \<and> intensity_cleared (set_peak m a)
        \<and> intensity_cleared (set_lo_offset m x) \<and> intensity_cleared (set_fft_ave m x)
        \<and> intensity_cleared (set_tune_rate m x) \<and> intensity_cleared (set_sig_strength m x)
        \<and> intensity_cleared (set_filter m f) \<and> intensity_cleared (set_kaiser_beta m x))"
proof -
  have "zoom_fac m \<noteq> 0 \<Longrightarrow> \<exists>m'. set_center_freq m v True = Inr m' \<and> intensity_cleared m'"
    by (simp add: set_center_freq_def Let_def intensity_cleared_clear_intensity)
  moreover have "\<exists>m'. set_gain m g True = Inr m' \<and> intensity_cleared m'"
    by (cases g) (simp_all add: set_gain_def intensity_cleared_clear_intensity)
  moreover have "intensity_cleared (set_min_intensity m s)"
    "intensity_cleared (set_max_intensity m s)"
    by (simp_all add: set_min_intensity_def set_max_intensity_def
        intensity_cleared_clear_intensity)
  moreover have "intensity_cleared m \<Longrightarrow>
        intensity_cleared (set_swap_iq m a) \<and> intensity_cleared (set_peak m a)
        \<and> intensity_cleared (set_lo_offset m x) \<and> intensity_cleared (set_fft_ave m x)
        \<and> intensity_cleared (set_tune_rate m x) \<and> intensity_cleared (set_sig_strength m x)
        \<and> intensity_cleared (set_filter m f) \<and> intensity_cleared (set_kaiser_beta m x)"
    by (simp add: intensity_cleared_def set_swap_iq_def set_peak_def set_lo_offset_def
        set_fft_ave_def set_tune_rate_def set_sig_strength_def set_filter_def
        set_kaiser_beta_def)
  ultimately show ?thesis by blast
qed

theorem clearing_setters_clear_intensity_witness:
  "zoom_fac auto_model \<noteq> 0 \<and> intensity_cleared auto_model
   \<and> min_auto_scale auto_model \<and> max_auto_scale auto_model
   \<and> (\<exists>m'. set_center_freq auto_model 100 True = Inr m' \<and> intensity_cleared m')
   \<and> intensity_cleared (set_filter auto_model ''hann'')"
proof -
  have h: "zoom_fac auto_model \<noteq> 0" "intensity_cleared auto_model"
    "min_auto_scale auto_model" "max_auto_scale auto_model"
    by (simp_all add: auto_model_eq default_model_def intensity_cleared_def)
  from clearing_setters_clear_intensity[of auto_model 100 _ _ _ _ "''hann''"] h show ?thesis by blast
qed

section \<open>The colour of a normalised value\<close>

lemma gradient_func_WATERFALL_GRAD:
  "gradient_func WATERFALL_GRAD = Inr (gradient_fun WATERFALL_GRAD (1 / 3))"
  by (simp add: gradient_func_def WATERFALL_GRAD_def)

text \<open>
  C4, as stated: at the input 0.1667 the gradient built from the four waterfall colours
  returns (0, 128, 255). It does not: the green channel is the floor of
  \<open>255 * 0.5001 = 127.5255\<close>.
\<close>

theorem gradient_at_1667_not_128:
  "gradient_at WATERFALL_GRAD (1667 / 10000) \<noteq> Inr (0, 128, 255)"
  unfolding gradient_at_def gradient_func_WATERFALL_GRAD
  by (simp add: gradient_fun_def WATERFALL_GRAD_def py_int_def py_nth_def py_index_def py_fmod_def
      rgb_lerp_def lerp_def Let_def)

text \<open>
  C4, amended: at the input 0.1667, and at the exact normalisation \<open>1/6\<close> of the
  scenario, the gradient built from the four waterfall colours returns (0, 127, 255):
  segment 0, each channel floored.
\<close>

theorem gradient_at_1667:
  "gradient_at WATERFALL_GRAD (1667 / 10000) = Inr (0, 127, 255)
   \<and> gradient_at WATERFALL_GRAD (1 / 6) = Inr (0, 127, 255)"
  unfolding gradient_at_def gradient_func_WATERFALL_GRAD
  by (simp add: gradient_fun_def WATERFALL_GRAD_def py_int_def py_nth_def py_index_def py_fmod_def
      rgb_lerp_def lerp_def Let_def)

end
